theory Spec2Isabelle
  imports Main
begin

section \<open>The CAPEC word cloud: catalog, style tables and callbacks\<close>

text \<open>
  The program is one Python module, \<^verbatim>\<open>word-cloud.py\<close>. At import time it reads the
  catalog into the data frame \<^verbatim>\<open>df\<close> and computes the two style lists; three
  callbacks then serve the page: \<^verbatim>\<open>on_click\<close>, \<^verbatim>\<open>update_table\<close> and
  \<^verbatim>\<open>update_figure\<close>. The embedding keeps these names. Exceptions are values of
  type \<open>error\<close>; a cell that pandas reads as NaN is \<open>None\<close>.
\<close>

subsection \<open>Errors and catalog rows\<close>

datatype error = KeyError | ValueError

text \<open>
  One row of the data frame. The module tests the three detail columns with
  \<^verbatim>\<open>pd.isna\<close> and gives both style dictionaries a \<^verbatim>\<open>np.nan\<close> key, so these five
  columns are optional cells; \<^verbatim>\<open>ID\<close>, \<^verbatim>\<open>Name\<close> and \<^verbatim>\<open>Description\<close> are used as
  text without any test.
\<close>

type_synonym cell = "string option"

record row =
  ID :: string
  Name :: string
  Description :: string
  Typical_Severity :: cell
  Likelihood_Of_Attack :: cell
  Related_Weaknesses :: cell
  Example_Instances :: cell
  Mitigations :: cell

type_synonym dataframe = "row list"

text \<open>\<^verbatim>\<open>CAPECids = df['ID']\<close>: the ID column, in table order.\<close>

definition CAPECids :: "dataframe \<Rightarrow> string list" where
  "CAPECids df = map ID df"

text \<open>
  \<^verbatim>\<open>df.loc[point_index, column]\<close> and \<^verbatim>\<open>CAPECids[point_index]\<close> on the default
  integer index: a label that is not a row number (negative ones too) raises KeyError.
\<close>

definition loc :: "dataframe \<Rightarrow> int \<Rightarrow> error + row" where
  "loc df point_index =
     (if 0 \<le> point_index \<and> point_index < int (length df)
      then Inr (df ! nat point_index) else Inl KeyError)"

subsection \<open>The Style Mapper: the two dictionaries and the load-time comprehensions\<close>

text \<open>
  What iterating a column yields, as far as a dictionary lookup can tell values apart: a
  text, the object \<^verbatim>\<open>np.nan\<close> itself, or a float NaN that is another object. A column
  with a text cell has the dtype \<^verbatim>\<open>object\<close> and holds \<^verbatim>\<open>np.nan\<close> in its missing cells;
  a column in which every cell is missing has the dtype \<^verbatim>\<open>float64\<close>, and iterating it
  makes a new float for every cell. (A cell that pandas reads as a number is no key of
  either dictionary, as the text it is read from is none.)
\<close>

datatype pyvalue = Text string | np_nan | float_nan

definition column :: "cell list \<Rightarrow> pyvalue list" where
  "column cells =
     (if list_all (\<lambda>c. c = None) cells
      then map (\<lambda>c. float_nan) cells
      else map (\<lambda>c. case c of None \<Rightarrow> np_nan | Some s \<Rightarrow> Text s) cells)"

text \<open>The dictionary literals, key by key.\<close>

definition color :: "(pyvalue \<times> string) list" where
  "color =
     [(Text ''Very High'', ''red''),
      (Text ''High'', ''maroon''),
      (Text ''Medium'', ''indigo''),
      (Text ''Low'', ''turquoise''),
      (Text ''Very Low'', ''blue''),
      (Text ''None'', ''lightblue''),
      (np_nan, ''lightblue'')]"

definition weights :: "(pyvalue \<times> int) list" where
  "weights =
     [(Text ''High'', 35),
      (Text ''Medium'', 27),
      (Text ''Low'', 18),
      (np_nan, 18)]"

text \<open>
  \<^verbatim>\<open>d[key]\<close>: a key the dictionary does not have raises KeyError. A NaN equals nothing,
  itself included, so it is found only when it is the very object that is the key: the
  lookup of any other NaN raises KeyError.
\<close>

definition subscript :: "(pyvalue \<times> 'v) list \<Rightarrow> pyvalue \<Rightarrow> error + 'v" where
  "subscript d k =
     (if k = float_nan then Inl KeyError
      else (case map_of d k of None \<Rightarrow> Inl KeyError | Some v \<Rightarrow> Inr v))"

text \<open>A list comprehension \<^verbatim>\<open>[d[val] for val in column]\<close> stops at the first exception.\<close>

fun comprehension :: "('a \<Rightarrow> error + 'b) \<Rightarrow> 'a list \<Rightarrow> error + 'b list" where
  "comprehension f [] = Inr []"
| "comprehension f (val # vals) =
     (case f val of
        Inl e \<Rightarrow> Inl e
      | Inr v \<Rightarrow> (case comprehension f vals of Inl e \<Rightarrow> Inl e | Inr vs \<Rightarrow> Inr (v # vs)))"

definition severity_color :: "dataframe \<Rightarrow> error + string list" where
  "severity_color df = comprehension (subscript color) (column (map Typical_Severity df))"

definition weight_size :: "dataframe \<Rightarrow> error + int list" where
  "weight_size df = comprehension (subscript weights) (column (map Likelihood_Of_Attack df))"

text \<open>
  The module computes both lists one after the other when it is imported; the first
  exception aborts the import.
\<close>

definition style_mapper :: "dataframe \<Rightarrow> error + (string list \<times> int list)" where
  "style_mapper df =
     (case severity_color df of
        Inl e \<Rightarrow> Inl e
      | Inr cs \<Rightarrow> (case weight_size df of Inl e \<Rightarrow> Inl e | Inr ws \<Rightarrow> Inr (cs, ws)))"

subsection \<open>Python string operations\<close>

text \<open>
  \<^verbatim>\<open>s.split(sep)\<close> scans from the left and cuts at every occurrence of \<open>sep\<close> that
  does not overlap the one before; the empty string gives one empty segment. An empty
  separator raises ValueError.
\<close>

fun split_on :: "string \<Rightarrow> string \<Rightarrow> string list" where
  "split_on sep [] = [[]]"
| "split_on sep (c # cs) =
     (if sep \<noteq> [] \<and> take (length sep) (c # cs) = sep
      then [] # split_on sep (drop (length sep) (c # cs))
      else (case split_on sep cs of
              [] \<Rightarrow> [[c]]
            | seg # segs \<Rightarrow> (c # seg) # segs))"

definition str_split :: "string \<Rightarrow> string \<Rightarrow> error + string list" where
  "str_split s sep = (if sep = [] then Inl ValueError else Inr (split_on sep s))"

text \<open>\<^verbatim>\<open>xs[1:-1]\<close>: from index 1 up to, not including, the last index.\<close>

definition slice_1_m1 :: "'a list \<Rightarrow> 'a list" where
  "slice_1_m1 xs = drop 1 (take (length xs - 1) xs)"

text \<open>
  \<^verbatim>\<open>s.replace(old, new)\<close>: every occurrence of \<open>old\<close>, found from the left without
  overlap, becomes \<open>new\<close>; an empty \<open>old\<close> puts \<open>new\<close> around every character.
\<close>

fun str_replace :: "string \<Rightarrow> string \<Rightarrow> string \<Rightarrow> string" where
  "str_replace [] old new = (if old = [] then new else [])"
| "str_replace (c # cs) old new =
     (if old = [] then new @ c # str_replace cs old new
      else if take (length old) (c # cs) = old
      then new @ str_replace (drop (length old) (c # cs)) old new
      else c # str_replace cs old new)"

text \<open>\<^verbatim>\<open>sep.join(parts)\<close>.\<close>

fun str_join :: "string \<Rightarrow> string list \<Rightarrow> string" where
  "str_join sep [] = []"
| "str_join sep [p] = p"
| "str_join sep (p # q # ps) = p @ sep @ str_join sep (q # ps)"

text \<open>\<^verbatim>\<open>sub in s\<close>, used to state where a delimiter occurs.\<close>

fun contains :: "string \<Rightarrow> string \<Rightarrow> bool" where
  "contains sub [] = (sub = [])"
| "contains sub (c # cs) = (take (length sub) (c # cs) = sub \<or> contains sub cs)"

definition newline :: string where
  "newline = [CHR 0x0A]"

subsection \<open>What the callbacks return\<close>

text \<open>
  A callback returns a Dash component, a string, a list or tuple of these, or
  \<^verbatim>\<open>None\<close>. Only the components the module builds are modelled: \<^verbatim>\<open>html.P\<close>,
  \<^verbatim>\<open>html.H3\<close>, \<^verbatim>\<open>html.Div\<close> and \<^verbatim>\<open>html.A\<close> (children, \<^verbatim>\<open>href\<close>, \<^verbatim>\<open>target\<close>).
\<close>

datatype css = CStr string | CInt int

type_synonym style = "(string \<times> css) list"

datatype component =
    Str string
  | NoneValue
  | ListOf "component list"
  | TupleOf "component list"
  | P component "style option"
  | H3 component "style option"
  | Div component
  | A component string string

definition grey15 :: style where
  "grey15 = [(''color'', CStr ''grey''), (''fontSize'', CInt 15)]"

definition red15 :: style where
  "red15 = [(''color'', CStr ''red''), (''fontSize'', CInt 15)]"

text \<open>Every string that occurs as text in a component tree, left to right.\<close>

fun texts :: "component \<Rightarrow> string list" where
  "texts (Str s) = [s]"
| "texts NoneValue = []"
| "texts (ListOf cs) = concat (map texts cs)"
| "texts (TupleOf cs) = concat (map texts cs)"
| "texts (P c st) = texts c"
| "texts (H3 c st) = texts c"
| "texts (Div c) = texts c"
| "texts (A c href target) = texts c"

text \<open>Every link target (\<^verbatim>\<open>href\<close> of an \<^verbatim>\<open>html.A\<close>) in a component tree, left to right.\<close>

fun hrefs :: "component \<Rightarrow> string list" where
  "hrefs (Str s) = []"
| "hrefs NoneValue = []"
| "hrefs (ListOf cs) = concat (map hrefs cs)"
| "hrefs (TupleOf cs) = concat (map hrefs cs)"
| "hrefs (P c st) = hrefs c"
| "hrefs (H3 c st) = hrefs c"
| "hrefs (Div c) = hrefs c"
| "hrefs (A c href target) = href # hrefs c"

text \<open>
  The two f-strings \<^verbatim>\<open>f'https://capec.mitre.org/data/definitions/{id}'\<close> and
  \<^verbatim>\<open>f'https://cwe.mitre.org/data/definitions/{cwe}'\<close>.
\<close>

definition capec_link :: "string \<Rightarrow> string" where
  "capec_link capec_id = ''https://capec.mitre.org/data/definitions/'' @ capec_id"

definition cwe_link :: "string \<Rightarrow> string" where
  "cwe_link cwe = ''https://cwe.mitre.org/data/definitions/'' @ cwe"

subsection \<open>\<^verbatim>\<open>on_click\<close>\<close>

text \<open>
  \<^verbatim>\<open>clickData\<close> is \<^verbatim>\<open>None\<close> or carries \<^verbatim>\<open>clickData['points'][0]['pointIndex']\<close>.
  \<^verbatim>\<open>textwrap.wrap\<close> belongs to the Python standard library, not to this module; it
  is the parameter \<open>wrap\<close>, called with the description and \<^verbatim>\<open>width=100\<close>. The
  \<^verbatim>\<open>return\<close> of the first branch ends in a comma, so it returns a 1-tuple.
\<close>

definition on_click ::
  "(string \<Rightarrow> nat \<Rightarrow> string list) \<Rightarrow> dataframe \<Rightarrow> int option \<Rightarrow> error + component" where
  "on_click wrap df clickData =
     (case clickData of
        None \<Rightarrow>
          Inr (TupleOf
            [P (Str ''Click on a CAPEC ID to see a description of the attack pattern'')
               (Some grey15)])
      | Some point_index \<Rightarrow>
          (case loc df point_index of
             Inl e \<Rightarrow> Inl e
           | Inr r \<Rightarrow>
               (let name = Name r;
                    description = Description r;
                    id = ID r;
                    wraptext = str_join newline (wrap description 100);
                    text = ''To learn more follow this link: '';
                    link = capec_link id
                in Inr (Div (ListOf
                     [H3 (Str name) (Some [(''color'', CStr ''darkgrey''), (''fontSize'', CInt 25)]),
                      P (Str wraptext) (Some grey15),
                      P (ListOf [Str text, A (Str link) link ''_blank''])
                        (Some [(''color'', CStr ''grey''), (''fontSize'', CInt 12)])])))))"

subsection \<open>\<^verbatim>\<open>update_table\<close>\<close>

text \<open>The \<^verbatim>\<open>for cwe in cwe_ids\<close> loop, appending one paragraph with one link each.\<close>

fun cwe_loop :: "string list \<Rightarrow> component list \<Rightarrow> component list" where
  "cwe_loop [] list_of_cwe = list_of_cwe"
| "cwe_loop (cwe # cwe_ids) list_of_cwe =
     (let link = cwe_link cwe
      in cwe_loop cwe_ids (list_of_cwe @ [P (A (Str link) link ''_blank'') (Some grey15)]))"

definition update_table :: "dataframe \<Rightarrow> string \<Rightarrow> int option \<Rightarrow> error + component" where
  "update_table df value clickData =
     (case clickData of
        None \<Rightarrow>
          Inr (P (Str ''If a CAPEC ID is clicked, information will be displayed here.'')
                 (Some grey15))
      | Some point_index \<Rightarrow>
          if value = ''weakness'' then
            (case loc df point_index of
               Inl e \<Rightarrow> Inl e
             | Inr r \<Rightarrow>
                 (case Related_Weaknesses r of
                    None \<Rightarrow> Inr (P (Str ''No weakness data available'') (Some red15))
                  | Some weakness \<Rightarrow>
                      (case str_split weakness ''::'' of
                         Inl e \<Rightarrow> Inl e
                       | Inr segments \<Rightarrow>
                           (let cwe_ids = slice_1_m1 segments;
                                text = ''Below you will find a link of realted weaknesses from the Common Weakness Enumeration (CWE) catolog'';
                                list_of_cwe = cwe_loop cwe_ids []
                            in Inr (Div (ListOf
                                 [P (Str text) (Some grey15),
                                  P (ListOf list_of_cwe) None]))))))
          else if value = ''instance'' then
            (case loc df point_index of
               Inl e \<Rightarrow> Inl e
             | Inr r \<Rightarrow>
                 (case Example_Instances r of
                    None \<Rightarrow> Inr (P (Str ''No example instance data available'') (Some red15))
                  | Some instance \<Rightarrow>
                      Inr (P (Str (str_replace instance ''::'' newline)) (Some grey15))))
          else if value = ''mitigation'' then
            (case loc df point_index of
               Inl e \<Rightarrow> Inl e
             | Inr r \<Rightarrow>
                 (case Mitigations r of
                    None \<Rightarrow> Inr (Str ''No mitigation available'')
                  | Some mitigation \<Rightarrow>
                      Inr (P (Str (str_replace mitigation ''::'' newline)) (Some grey15))))
          else Inr NoneValue)"

subsection \<open>\<^verbatim>\<open>random.sample\<close> over an explicit source of random bits\<close>

text \<open>
  \<^verbatim>\<open>update_figure\<close> calls \<^verbatim>\<open>random.sample(range(500), cids)\<close> of the Python standard
  library (CPython 3.11, \<^verbatim>\<open>Lib/random.py\<close>). The generator's hidden state is made
  explicit: a \<open>source\<close> is the list of the values that the coming calls of
  \<^verbatim>\<open>getrandbits\<close> deliver, and every function returns what is left of it. The two
  \<^verbatim>\<open>while\<close> loops of the library may run for any number of rounds; a run that uses up
  the source without leaving its loop has not returned, which is the value \<open>None\<close>.
\<close>

type_synonym source = "nat list"

text \<open>\<^verbatim>\<open>n.bit_length()\<close>.\<close>

fun bit_length :: "nat \<Rightarrow> nat" where
  "bit_length n = (if n = 0 then 0 else Suc (bit_length (n div 2)))"

declare bit_length.simps [simp del]

text \<open>
  \<^verbatim>\<open>_randbelow_with_getrandbits(n)\<close>: draw \<open>k = n.bit_length()\<close> bits until the
  value is below \<open>n\<close>. \<^verbatim>\<open>getrandbits(k)\<close> delivers the low \<open>k\<close> bits of the next
  value of the source.
\<close>

fun randbelow :: "nat \<Rightarrow> source \<Rightarrow> (nat \<times> source) option" where
  "randbelow n [] = None"
| "randbelow n (bits # src) =
     (let r = bits mod 2 ^ bit_length n
      in if r \<ge> n then randbelow n src else Some (r, src))"

lemma randbelow_shorter: "randbelow n src = Some (j, src') \<Longrightarrow> length src' < length src"
  by (induction src) (auto simp: Let_def split: if_splits)

text \<open>
  The body of the second branch of \<^verbatim>\<open>sample\<close>:
  \<^verbatim>\<open>j = randbelow(n)\<close>, then \<^verbatim>\<open>while j in selected: j = randbelow(n)\<close>.
\<close>

function draw_unselected :: "nat \<Rightarrow> nat set \<Rightarrow> source \<Rightarrow> (nat \<times> source) option" where
  "draw_unselected n selected src =
     (case randbelow n src of
        None \<Rightarrow> None
      | Some (j, src') \<Rightarrow>
          if j \<in> selected then draw_unselected n selected src' else Some (j, src'))"
  by pat_completeness auto
termination
  by (relation "measure (\<lambda>(n, selected, src). length src)") (auto dest: randbelow_shorter)

declare draw_unselected.simps [simp del]

text \<open>
  The loop \<^verbatim>\<open>for i in range(k)\<close> of the second branch, with \<open>m\<close> the rounds still to
  run. The population is \<^verbatim>\<open>range(n)\<close>, so \<^verbatim>\<open>population[j]\<close> is \<open>j\<close>; the library
  writes \<^verbatim>\<open>result[i]\<close> for \<open>i = 0, 1, ...\<close>, which appends in order.
\<close>

fun selected_loop ::
  "nat \<Rightarrow> nat \<Rightarrow> nat set \<Rightarrow> nat list \<Rightarrow> source \<Rightarrow> (nat list \<times> source) option" where
  "selected_loop n 0 selected result src = Some (result, src)"
| "selected_loop n (Suc m) selected result src =
     (case draw_unselected n selected src of
        None \<Rightarrow> None
      | Some (j, src') \<Rightarrow> selected_loop n m (insert j selected) (result @ [j]) src')"

text \<open>
  The loop of the first branch, over the list \<^verbatim>\<open>pool = list(population)\<close>:
  \<^verbatim>\<open>j = randbelow(n - i); result[i] = pool[j]; pool[j] = pool[n - i - 1]\<close>.
\<close>

fun pool_loop ::
  "nat \<Rightarrow> nat \<Rightarrow> nat \<Rightarrow> nat list \<Rightarrow> nat list \<Rightarrow> source \<Rightarrow> (nat list \<times> source) option" where
  "pool_loop n i 0 pool result src = Some (result, src)"
| "pool_loop n i (Suc m) pool result src =
     (case randbelow (n - i) src of
        None \<Rightarrow> None
      | Some (j, src') \<Rightarrow>
          pool_loop n (Suc i) m (pool[j := pool ! (n - i - 1)]) (result @ [pool ! j]) src')"

text \<open>
  \<^verbatim>\<open>_ceil(_log(x, 4))\<close>: the least \<open>e\<close> with \<open>x \<le> 4 ^ e\<close>. The library computes it in
  floating point; it is called with \<open>x = 3 * k\<close> and \<open>k \<le> n\<close> only, where \<open>x\<close> is never
  a power of 4 and the rounding is exact.
\<close>

fun ceil_log4 :: "nat \<Rightarrow> nat" where
  "ceil_log4 x = (if x \<le> 1 then 0 else Suc (ceil_log4 ((x + 3) div 4)))"

declare ceil_log4.simps [simp del]

definition setsize :: "nat \<Rightarrow> nat" where
  "setsize k = (if k > 5 then 21 + 4 ^ ceil_log4 (k * 3) else 21)"

text \<open>
  \<^verbatim>\<open>random.sample(range(n), k)\<close>: ValueError unless \<open>0 \<le> k \<le> n\<close>; the pool branch
  when \<open>n \<le> setsize\<close>, the branch with the set of selections otherwise.
\<close>

definition sample :: "nat \<Rightarrow> int \<Rightarrow> source \<Rightarrow> (error + nat list \<times> source) option" where
  "sample n k src =
     (if \<not> (0 \<le> k \<and> k \<le> int n) then Some (Inl ValueError)
      else if n \<le> setsize (nat k)
      then map_option Inr (pool_loop n 0 (nat k) [0..<n] [] src)
      else map_option Inr (selected_loop n (nat k) {} [] src))"

subsection \<open>\<^verbatim>\<open>update_figure\<close>\<close>

text \<open>
  The figure: the arguments of \<^verbatim>\<open>go.Scatter\<close> and the size of the layout. The
  module passes the whole ID column as \<^verbatim>\<open>text\<close>, the whole name column as
  \<^verbatim>\<open>hovertext\<close> and the two whole style lists as \<^verbatim>\<open>textfont\<close>.
\<close>

record figure =
  scatter_x :: "nat list"
  scatter_y :: "nat list"
  scatter_mode :: string
  scatter_text :: "string list"
  scatter_hovertext :: "string list"
  scatter_hoverinfo :: string
  textfont_size :: "int list"
  textfont_color :: "string list"
  layout_width :: int
  layout_height :: int

text \<open>
  The arguments are evaluated left to right: the sample for \<^verbatim>\<open>x\<close> first, then the
  sample for \<^verbatim>\<open>y\<close> from what the first left of the source. \<open>colors\<close> and
  \<open>sizes\<close> are the module's globals \<^verbatim>\<open>severity_color\<close> and \<^verbatim>\<open>weight_size\<close>.
\<close>

definition update_figure ::
  "dataframe \<Rightarrow> string list \<Rightarrow> int list \<Rightarrow> int \<Rightarrow> source \<Rightarrow> (error + figure \<times> source) option" where
  "update_figure df colors sizes cids src =
     (case sample 500 cids src of
        None \<Rightarrow> None
      | Some (Inl e) \<Rightarrow> Some (Inl e)
      | Some (Inr (xs, src')) \<Rightarrow>
          (case sample 500 cids src' of
             None \<Rightarrow> None
           | Some (Inl e) \<Rightarrow> Some (Inl e)
           | Some (Inr (ys, src'')) \<Rightarrow>
               Some (Inr
                 (\<lparr>scatter_x = xs,
                   scatter_y = ys,
                   scatter_mode = ''text'',
                   scatter_text = CAPECids df,
                   scatter_hovertext = map Name df,
                   scatter_hoverinfo = ''text'',
                   textfont_size = sizes,
                   textfont_color = colors,
                   layout_width = 760,
                   layout_height = 760\<rparr>, src''))))"

text \<open>
  A scatter trace draws one point per index that both \<^verbatim>\<open>x\<close> and \<^verbatim>\<open>y\<close> have, and
  point \<open>i\<close> shows entry \<open>i\<close> of \<^verbatim>\<open>text\<close>; entries past the last point are not drawn.
\<close>

definition point_count :: "figure \<Rightarrow> nat" where
  "point_count fig = min (length (scatter_x fig)) (length (scatter_y fig))"

definition point_labels :: "figure \<Rightarrow> string list" where
  "point_labels fig = take (point_count fig) (scatter_text fig)"

subsection \<open>The running application\<close>

text \<open>
  The module's globals and the generator's state. The three callbacks are the only
  code that runs after the import; none of them assigns to a global, and only
  \<^verbatim>\<open>update_figure\<close> draws from the generator.
\<close>

record server =
  server_df :: dataframe
  server_colors :: "string list"
  server_sizes :: "int list"
  server_random :: source

datatype request =
    OnClick "int option"
  | UpdateTable string "int option"
  | UpdateFigure int

datatype response =
    Children "error + component"
  | Figure "error + figure"

text \<open>One callback, with the state it leaves; \<open>None\<close> when the call does not return.\<close>

fun callback ::
  "(string \<Rightarrow> nat \<Rightarrow> string list) \<Rightarrow> server \<Rightarrow> request \<Rightarrow> (response \<times> server) option" where
  "callback wrap s (OnClick clickData) =
     Some (Children (on_click wrap (server_df s) clickData), s)"
| "callback wrap s (UpdateTable value clickData) =
     Some (Children (update_table (server_df s) value clickData), s)"
| "callback wrap s (UpdateFigure cids) =
     (case update_figure (server_df s) (server_colors s) (server_sizes s) cids (server_random s) of
        None \<Rightarrow> None
      | Some (Inl e) \<Rightarrow> Some (Figure (Inl e), s)
      | Some (Inr (fig, src')) \<Rightarrow> Some (Figure (Inr fig), s\<lparr>server_random := src'\<rparr>))"

text \<open>The server handles one request at a time, each to completion.\<close>

fun serve ::
  "(string \<Rightarrow> nat \<Rightarrow> string list) \<Rightarrow> server \<Rightarrow> request list \<Rightarrow> server option" where
  "serve wrap s [] = Some s"
| "serve wrap s (req # reqs) =
     (case callback wrap s req of
        None \<Rightarrow> None
      | Some (resp, s') \<Rightarrow> serve wrap s' reqs)"

subsection \<open>A small catalog\<close>

text \<open>Concrete rows, a concrete catalog and a concrete source, on which the theorems are run.\<close>

definition example_row :: row where
  "example_row =
     \<lparr>ID = ''CAPEC-1'', Name = ''X'',
      Description = ''An adversary sends a crafted request to the server and reads the reply in order to learn which versions of the software are running there.'',
      Typical_Severity = Some ''High'', Likelihood_Of_Attack = Some ''Low'',
      Related_Weaknesses = Some ''::123::456::'',
      Example_Instances = Some ''first::second'',
      Mitigations = None\<rparr>"

text \<open>
  The two lines that \<^verbatim>\<open>textwrap.wrap\<close> makes of the description of \<open>example_row\<close> at
  \<^verbatim>\<open>width=100\<close>.
\<close>

definition example_lines :: "string list" where
  "example_lines =
     [''An adversary sends a crafted request to the server and reads the reply in order to learn which'',
      ''versions of the software are running there.'']"

definition example_df :: dataframe where
  "example_df =
     [example_row,
      example_row\<lparr>ID := ''CAPEC-2'', Name := ''Z'', Likelihood_Of_Attack := None,
                   Related_Weaknesses := Some ''1::2::3'',
                   Example_Instances := None, Mitigations := Some ''::patch::filter::''\<rparr>,
      example_row\<lparr>ID := ''CAPEC-3'', Name := ''W'', Typical_Severity := None,
                   Related_Weaknesses := None\<rparr>,
      example_row\<lparr>ID := ''CAPEC-4'', Name := ''V'', Likelihood_Of_Attack := Some ''High'',
                   Related_Weaknesses := Some ''CWE-79''\<rparr>]"

definition example_catalog :: dataframe where
  "example_catalog = map (\<lambda>n. example_row\<lparr>ID := ''CAPEC-'' @ [char_of (n + 65)]\<rparr>) [0..<25]"

definition example_xs :: "nat list" where
  "example_xs = [3, 488, 10, 11, 12, 13, 14, 15, 16, 17, 18, 19, 20, 21, 22, 23, 24, 25, 26, 27]"

definition example_ys :: "nat list" where
  "example_ys = [0, 1, 2, 3, 4, 5, 6, 7, 8, 9, 10, 11, 12, 13, 14, 15, 16, 17, 18, 19]"

text \<open>
  The draws behind \<open>example_xs\<close>: 1000 is 488 in its low 9 bits, the second 3 has
  been selected already and 511 is not below 500.
\<close>

definition example_source :: source where
  "example_source =
     [3, 1000, 3, 511, 10, 11, 12, 13, 14, 15, 16, 17, 18, 19, 20, 21, 22, 23, 24, 25, 26, 27,
      0, 1, 2, 3, 4, 5, 6, 7, 8, 9, 10, 11, 12, 13, 14, 15, 16, 17, 18, 19,
      7]"

definition example_figure :: figure where
  "example_figure =
     \<lparr>scatter_x = example_xs,
      scatter_y = example_ys,
      scatter_mode = ''text'',
      scatter_text = CAPECids example_catalog,
      scatter_hovertext = map Name example_catalog,
      scatter_hoverinfo = ''text'',
      textfont_size = replicate 25 18,
      textfont_color = replicate 25 ''maroon'',
      layout_width = 760,
      layout_height = 760\<rparr>"

definition example_server :: server where
  "example_server =
     \<lparr>server_df = example_catalog,
      server_colors = replicate 25 ''maroon'',
      server_sizes = replicate 25 18,
      server_random = example_source\<rparr>"

section \<open>Properties\<close>

subsection \<open>Splitting, joining and replacing\<close>




lemma split_on_no_sep: "\<not> contains sep s \<Longrightarrow> split_on sep s = [s]"
  by (induction sep s rule: split_on.induct) (auto split: list.splits)

lemma cwe_loop_map:
  "cwe_loop cwe_ids acc
     = acc @ map (\<lambda>cwe. P (A (Str (cwe_link cwe)) (cwe_link cwe) ''_blank'') (Some grey15)) cwe_ids"
  by (induction cwe_ids arbitrary: acc) (auto simp: Let_def)






subsection \<open>Sampling\<close>

lemma randbelow_less: "randbelow n src = Some (j, src') \<Longrightarrow> j < n"
  by (induction src) (auto simp: Let_def split: if_splits)

lemma draw_unselected_fresh:
  "draw_unselected n selected src = Some (j, src') \<Longrightarrow> j < n \<and> j \<notin> selected"
proof (induction n selected src rule: draw_unselected.induct)
  case (1 n selected src)
  from "1.prems" obtain j0 src0 where rb: "randbelow n src = Some (j0, src0)"
    by (auto simp: draw_unselected.simps [of n selected src] split: option.splits)
  show ?case
  proof (cases "j0 \<in> selected")
    case True
    then have "draw_unselected n selected src0 = Some (j, src')"
      using "1.prems" rb by (simp add: draw_unselected.simps [of n selected src])
    then show ?thesis using "1.IH" [OF rb _ True] by simp
  next
    case False
    then have "j = j0"
      using "1.prems" rb by (simp add: draw_unselected.simps [of n selected src])
    then show ?thesis using False randbelow_less [OF rb] by simp
  qed
qed

lemma selected_loop_invariant:
  "selected_loop n m selected result src = Some (out, src') \<Longrightarrow>
   distinct result \<Longrightarrow> set result = selected \<Longrightarrow> set result \<subseteq> {0..<n} \<Longrightarrow>
   distinct out \<and> length out = length result + m \<and> set out \<subseteq> {0..<n}"
proof (induction m arbitrary: selected result src)
  case 0
  then show ?case by simp
next
  case (Suc m)
  from Suc.prems(1) obtain j src0 where
    d: "draw_unselected n selected src = Some (j, src0)" and
    l: "selected_loop n m (insert j selected) (result @ [j]) src0 = Some (out, src')"
    by (auto split: option.splits)
  from draw_unselected_fresh [OF d] have j: "j < n" "j \<notin> selected" by simp_all
  have "distinct (result @ [j])" using Suc.prems(2,3) j by simp
  moreover have "set (result @ [j]) = insert j selected" using Suc.prems(3) by simp
  moreover have "set (result @ [j]) \<subseteq> {0..<n}" using Suc.prems(4) j by simp
  ultimately show ?case using Suc.IH [OF l] by simp
qed

lemma less_two_power_bit_length: "n < 2 ^ bit_length n"
proof (induction n rule: bit_length.induct)
  case (1 n)
  show ?case
  proof (cases "n = 0")
    case True
    then show ?thesis by (simp add: bit_length.simps [of n])
  next
    case False
    then have "n div 2 < 2 ^ bit_length (n div 2)" using 1 by simp
    then have "n < 2 * 2 ^ bit_length (n div 2)" by linarith
    then show ?thesis using False by (simp add: bit_length.simps [of n])
  qed
qed

lemma randbelow_accepts: "j < n \<Longrightarrow> randbelow n (j # src) = Some (j, src)"
proof -
  assume "j < n"
  then have "j < 2 ^ bit_length n" using less_two_power_bit_length [of n] by linarith
  then have "j mod 2 ^ bit_length n = j" by simp
  then show ?thesis using \<open>j < n\<close> by (simp add: Let_def)
qed

lemma draw_unselected_accepts:
  "j < n \<Longrightarrow> j \<notin> selected \<Longrightarrow> draw_unselected n selected (j # src) = Some (j, src)"
  by (simp add: draw_unselected.simps [of n selected "j # src"] randbelow_accepts
        del: randbelow.simps)

lemma selected_loop_accepts:
  "distinct ds \<Longrightarrow> set ds \<subseteq> {0..<n} \<Longrightarrow> set ds \<inter> selected = {} \<Longrightarrow>
   selected_loop n (length ds) selected result (ds @ rest) = Some (result @ ds, rest)"
proof (induction ds arbitrary: selected result)
  case Nil
  then show ?case by simp
next
  case (Cons d ds)
  have d: "d < n" "d \<notin> selected" using Cons.prems by auto
  have "set ds \<inter> insert d selected = {}" using Cons.prems by auto
  then have "selected_loop n (length ds) (insert d selected) (result @ [d]) (ds @ rest)
      = Some ((result @ [d]) @ ds, rest)"
    using Cons.IH [of "insert d selected" "result @ [d]"] Cons.prems by simp
  then show ?case using d by (simp add: draw_unselected_accepts)
qed

lemma bit_length_500: "bit_length 500 = 9"
  by (simp add: bit_length.simps)

lemma setsize_20: "setsize 20 = 85"
  by (simp add: setsize_def ceil_log4.simps)

lemma setsize_30: "setsize 30 = 277"
  by (simp add: setsize_def ceil_log4.simps)

lemma setsize_40: "setsize 40 = 277"
  by (simp add: setsize_def ceil_log4.simps)

lemma setsize_50: "setsize 50 = 277"
  by (simp add: setsize_def ceil_log4.simps)

lemma sample_dropdown:
  "cids \<in> {20, 30, 40, 50} \<Longrightarrow>
   sample 500 cids src = map_option Inr (selected_loop 500 (nat cids) {} [] src)"
  by (auto simp: sample_def setsize_20 setsize_30 setsize_40 setsize_50)

subsection \<open>The link list of \<^verbatim>\<open>update_table\<close>\<close>

lemma slice_1_m1_frame: "slice_1_m1 (x # middle @ [z]) = middle"
  by (simp add: slice_1_m1_def)

lemma length_slice_1_m1: "length (slice_1_m1 xs) = length xs - 2"
  by (simp add: slice_1_m1_def)

lemma hrefs_cwe_paragraphs:
  "concat (map hrefs (map (\<lambda>cwe. P (A (Str (cwe_link cwe)) (cwe_link cwe) ''_blank'') (Some grey15)) cwe_ids))
     = map cwe_link cwe_ids"
  by (induction cwe_ids) simp_all

lemma update_table_weakness:
  assumes "0 \<le> i" and "i < int (length df)" and "Related_Weaknesses (df ! nat i) = Some w"
  shows "update_table df ''weakness'' (Some i) =
           Inr (Div (ListOf
             [P (Str ''Below you will find a link of realted weaknesses from the Common Weakness Enumeration (CWE) catolog'') (Some grey15),
              P (ListOf (map (\<lambda>cwe. P (A (Str (cwe_link cwe)) (cwe_link cwe) ''_blank'') (Some grey15))
                          (slice_1_m1 (split_on ''::'' w)))) None]))"
  using assms by (simp add: update_table_def loc_def str_split_def cwe_loop_map Let_def)

subsection \<open>Texts whose segments avoid the separator\<close>

lemma take_length_prefix: "(take (length sub) s = sub) \<longleftrightarrow> (\<exists>b. s = sub @ b)"
proof
  assume "take (length sub) s = sub"
  then have "s = sub @ drop (length sub) s" by (metis append_take_drop_id)
  then show "\<exists>b. s = sub @ b" ..
next
  assume "\<exists>b. s = sub @ b"
  then show "take (length sub) s = sub" by auto
qed

lemma contains_iff: "contains sub s \<longleftrightarrow> (\<exists>a b. s = a @ sub @ b)"
proof (induction s)
  case Nil
  then show ?case by auto
next
  case (Cons c cs)
  show ?case
  proof
    assume "contains sub (c # cs)"
    then consider "take (length sub) (c # cs) = sub" | "contains sub cs" by auto
    then show "\<exists>a b. c # cs = a @ sub @ b"
    proof cases
      case 1
      then obtain b where "c # cs = sub @ b" unfolding take_length_prefix by blast
      then have "c # cs = [] @ sub @ b" by simp
      then show ?thesis by blast
    next
      case 2
      then obtain a b where "cs = a @ sub @ b" using Cons.IH by blast
      then have "c # cs = (c # a) @ sub @ b" by simp
      then show ?thesis by blast
    qed
  next
    assume "\<exists>a b. c # cs = a @ sub @ b"
    then obtain a b where ab: "c # cs = a @ sub @ b" by blast
    show "contains sub (c # cs)"
    proof (cases a)
      case Nil
      then have "take (length sub) (c # cs) = sub" using ab by simp
      then show ?thesis by simp
    next
      case (Cons a0 a')
      then have "cs = a' @ sub @ b" using ab by simp
      then have "contains sub cs" using Cons.IH by blast
      then show ?thesis by simp
    qed
  qed
qed

lemma split_on_foreign: "set s \<inter> set sep = {} \<Longrightarrow> sep \<noteq> [] \<Longrightarrow> split_on sep s = [s]"
proof (induction s)
  case Nil
  then show ?case by simp
next
  case (Cons c cs)
  have "take (length sep) (c # cs) \<noteq> sep"
  proof
    assume "take (length sep) (c # cs) = sep"
    then obtain b where "c # cs = sep @ b" unfolding take_length_prefix by blast
    then have "c \<in> set sep" using Cons.prems(2) by (cases sep) auto
    then show False using Cons.prems(1) by auto
  qed
  moreover have "split_on sep cs = [cs]" using Cons by auto
  ultimately show ?case by simp
qed

lemma split_on_foreign_head:
  "set s \<inter> set sep = {} \<Longrightarrow> sep \<noteq> [] \<Longrightarrow>
   split_on sep (s @ sep @ rest) = s # split_on sep rest"
proof (induction s)
  case Nil
  obtain c cs where eq: "sep @ rest = c # cs" using Nil.prems(2) by (cases sep) auto
  have "take (length sep) (sep @ rest) = sep" and "drop (length sep) (sep @ rest) = rest"
    by simp_all
  then have "take (length sep) (c # cs) = sep" and "drop (length sep) (c # cs) = rest"
    unfolding eq by simp_all
  then have "split_on sep (c # cs) = [] # split_on sep rest"
    using Nil.prems(2) by simp
  then show ?case using eq by simp
next
  case (Cons c cs)
  have "take (length sep) (c # cs @ sep @ rest) \<noteq> sep"
  proof
    assume "take (length sep) (c # cs @ sep @ rest) = sep"
    then obtain b where "c # cs @ sep @ rest = sep @ b" unfolding take_length_prefix by blast
    then have "c \<in> set sep" using Cons.prems(2) by (cases sep) auto
    then show False using Cons.prems(1) by auto
  qed
  moreover have "split_on sep (cs @ sep @ rest) = cs # split_on sep rest" using Cons by auto
  ultimately show ?case by simp
qed

lemma split_on_joined:
  "sep \<noteq> [] \<Longrightarrow> \<forall>seg \<in> set (s # segs). set seg \<inter> set sep = {} \<Longrightarrow>
   split_on sep (s @ concat (map (\<lambda>seg. sep @ seg) segs)) = s # segs"
proof (induction segs arbitrary: s)
  case Nil
  then show ?case by (simp add: split_on_foreign)
next
  case (Cons t segs)
  have "split_on sep (s @ sep @ (t @ concat (map (\<lambda>seg. sep @ seg) segs)))
      = s # split_on sep (t @ concat (map (\<lambda>seg. sep @ seg) segs))"
    using Cons.prems by (intro split_on_foreign_head) auto
  moreover have "split_on sep (t @ concat (map (\<lambda>seg. sep @ seg) segs)) = t # segs"
    using Cons.prems by (intro Cons.IH) auto
  ultimately show ?case by simp
qed

lemma str_join_explicit:
  "str_join sep ls = (case ls of [] \<Rightarrow> [] | l # ls' \<Rightarrow> l @ concat (map (\<lambda>x. sep @ x) ls'))"
  by (induction sep ls rule: str_join.induct) simp_all

lemma split_on_newline_joined:
  assumes "\<forall>l \<in> set (l0 # ls). CHR 0x0A \<notin> set l"
  shows "split_on [CHR 0x0A] (l0 @ concat (map (\<lambda>x. CHR 0x0A # x) ls)) = l0 # ls"
proof -
  have "\<forall>l \<in> set (l0 # ls). set l \<inter> set [CHR 0x0A] = {}" using assms by auto
  then have "split_on [CHR 0x0A] (l0 @ concat (map (\<lambda>x. [CHR 0x0A] @ x) ls)) = l0 # ls"
    by (intro split_on_joined) simp_all
  then show ?thesis by simp
qed

subsection \<open>The style tables\<close>

lemma comprehension_total:
  "\<forall>val \<in> set vals. \<exists>v. f val = Inr v \<Longrightarrow>
   \<exists>vs. comprehension f vals = Inr vs \<and> length vs = length vals
        \<and> (\<forall>i < length vals. f (vals ! i) = Inr (vs ! i))"
proof (induction vals)
  case Nil
  then show ?case by simp
next
  case (Cons val vals)
  then obtain v where v: "f val = Inr v" by auto
  from Cons obtain vs where vs: "comprehension f vals = Inr vs" "length vs = length vals"
    "\<forall>i < length vals. f (vals ! i) = Inr (vs ! i)" by auto
  have "\<forall>i < length (val # vals). f ((val # vals) ! i) = Inr ((v # vs) ! i)"
    using v vs(3) by (auto simp: nth_Cons split: nat.splits)
  then show ?case using v vs by auto
qed

lemma comprehension_raises:
  "val \<in> set vals \<Longrightarrow> f val = Inl KeyError \<Longrightarrow> \<forall>x e. f x = Inl e \<longrightarrow> e = KeyError \<Longrightarrow>
   comprehension f vals = Inl KeyError"
proof (induction vals)
  case Nil
  then show ?case by simp
next
  case (Cons x xs)
  show ?case
  proof (cases "f x")
    case (Inl e)
    then show ?thesis using Cons.prems(3) by auto
  next
    case (Inr v)
    then have "val \<in> set xs" using Cons.prems by auto
    then show ?thesis using Cons Inr by simp
  qed
qed

lemma subscript_KeyError: "subscript d k = Inl e \<Longrightarrow> e = KeyError"
  by (auto simp: subscript_def split: option.splits if_splits)

lemma comprehension_subscript_error:
  "comprehension (subscript d) vals = Inl e \<Longrightarrow> e = KeyError"
  by (induction vals arbitrary: e) (auto split: sum.splits dest: subscript_KeyError)

lemma subscript_outside: "\<not> (\<exists>v. subscript d k = Inr v) \<Longrightarrow> subscript d k = Inl KeyError"
  by (cases "subscript d k") (auto dest: subscript_KeyError)

lemma subscript_color:
  "(\<exists>v. subscript color (case c of None \<Rightarrow> np_nan | Some s \<Rightarrow> Text s) = Inr v) \<longleftrightarrow>
   c \<in> {None, Some ''Very High'', Some ''High'', Some ''Medium'', Some ''Low'',
        Some ''Very Low'', Some ''None''}"
  by (cases c) (auto simp: subscript_def color_def)

lemma subscript_weights:
  "(\<exists>v. subscript weights (case c of None \<Rightarrow> np_nan | Some s \<Rightarrow> Text s) = Inr v) \<longleftrightarrow>
   c \<in> {None, Some ''High'', Some ''Medium'', Some ''Low''}"
  by (cases c) (auto simp: subscript_def weights_def)

lemma column_object:
  assumes "None \<in> set cells \<longrightarrow> (\<exists>c \<in> set cells. c \<noteq> None)"
  shows "column cells = map (\<lambda>c. case c of None \<Rightarrow> np_nan | Some s \<Rightarrow> Text s) cells"
proof (cases "list_all (\<lambda>c. c = None) cells")
  case True
  then have "cells = []" using assms by (cases cells) (auto simp: list_all_iff)
  then show ?thesis by (simp add: column_def)
next
  case False
  then show ?thesis by (simp add: column_def)
qed

lemma column_float:
  "cells \<noteq> [] \<Longrightarrow> \<forall>c \<in> set cells. c = None \<Longrightarrow> column cells = replicate (length cells) float_nan"
  by (simp add: column_def list_all_iff map_replicate_const)

lemma severity_nan_color: "subscript color np_nan = subscript color (Text ''None'')"
  by (simp add: subscript_def color_def)

lemma likelihood_nan_size: "subscript weights np_nan = subscript weights (Text ''Low'')"
  by (simp add: subscript_def weights_def)

lemma severity_color_total:
  assumes enum: "\<forall>r \<in> set df.
        Typical_Severity r \<in> {None, Some ''Very High'', Some ''High'', Some ''Medium'',
                               Some ''Low'', Some ''Very Low'', Some ''None''}"
    and mixed: "(\<exists>r \<in> set df. Typical_Severity r = None)
                 \<longrightarrow> (\<exists>r \<in> set df. Typical_Severity r \<noteq> None)"
  shows "\<exists>cs. severity_color df = Inr cs \<and> length cs = length df
            \<and> (\<forall>i < length df.
                  (case Typical_Severity (df ! i) of
                     None \<Rightarrow> subscript color (Text ''None'') = Inr (cs ! i)
                   | Some s \<Rightarrow> subscript color (Text s) = Inr (cs ! i)))"
proof -
  let ?v = "\<lambda>c. case c of None \<Rightarrow> np_nan | Some s \<Rightarrow> Text s"
  have col: "column (map Typical_Severity df) = map ?v (map Typical_Severity df)"
    using mixed by (intro column_object) auto
  have "\<forall>val \<in> set (map ?v (map Typical_Severity df)). \<exists>v. subscript color val = Inr v"
    using enum subscript_color by auto
  from comprehension_total [OF this] obtain cs where
    cs: "severity_color df = Inr cs" "length cs = length df"
      "\<forall>i < length df. subscript color (?v (Typical_Severity (df ! i))) = Inr (cs ! i)"
    by (auto simp: severity_color_def col)
  have "\<forall>i < length df.
                  (case Typical_Severity (df ! i) of
                     None \<Rightarrow> subscript color (Text ''None'') = Inr (cs ! i)
                   | Some s \<Rightarrow> subscript color (Text s) = Inr (cs ! i))"
    using cs(3) severity_nan_color by (auto split: option.splits)
  then show ?thesis using cs(1,2) by blast
qed

lemma weight_size_total:
  assumes enum: "\<forall>r \<in> set df.
        Likelihood_Of_Attack r \<in> {None, Some ''High'', Some ''Medium'', Some ''Low''}"
    and mixed: "(\<exists>r \<in> set df. Likelihood_Of_Attack r = None)
                 \<longrightarrow> (\<exists>r \<in> set df. Likelihood_Of_Attack r \<noteq> None)"
  shows "\<exists>ws. weight_size df = Inr ws \<and> length ws = length df
            \<and> (\<forall>i < length df.
                  (case Likelihood_Of_Attack (df ! i) of
                     None \<Rightarrow> subscript weights (Text ''Low'') = Inr (ws ! i)
                   | Some s \<Rightarrow> subscript weights (Text s) = Inr (ws ! i)))"
proof -
  let ?v = "\<lambda>c. case c of None \<Rightarrow> np_nan | Some s \<Rightarrow> Text s"
  have col: "column (map Likelihood_Of_Attack df) = map ?v (map Likelihood_Of_Attack df)"
    using mixed by (intro column_object) auto
  have "\<forall>val \<in> set (map ?v (map Likelihood_Of_Attack df)). \<exists>v. subscript weights val = Inr v"
    using enum subscript_weights by auto
  from comprehension_total [OF this] obtain ws where
    ws: "weight_size df = Inr ws" "length ws = length df"
      "\<forall>i < length df. subscript weights (?v (Likelihood_Of_Attack (df ! i))) = Inr (ws ! i)"
    by (auto simp: weight_size_def col)
  have "\<forall>i < length df.
                  (case Likelihood_Of_Attack (df ! i) of
                     None \<Rightarrow> subscript weights (Text ''Low'') = Inr (ws ! i)
                   | Some s \<Rightarrow> subscript weights (Text s) = Inr (ws ! i))"
    using ws(3) likelihood_nan_size by (auto split: option.splits)
  then show ?thesis using ws(1,2) by blast
qed

lemma severity_color_raises:
  assumes "r \<in> set df"
    and "Typical_Severity r \<notin> {None, Some ''Very High'', Some ''High'', Some ''Medium'',
                               Some ''Low'', Some ''Very Low'', Some ''None''}"
  shows "severity_color df = Inl KeyError"
proof -
  let ?v = "\<lambda>c. case c of None \<Rightarrow> np_nan | Some s \<Rightarrow> Text s"
  have "Typical_Severity r \<noteq> None" using assms(2) by auto
  then have col: "column (map Typical_Severity df) = map ?v (map Typical_Severity df)"
    using assms(1) by (intro column_object) auto
  have "\<not> (\<exists>v. subscript color (?v (Typical_Severity r)) = Inr v)"
    using assms(2) unfolding subscript_color .
  then have "subscript color (?v (Typical_Severity r)) = Inl KeyError"
    by (rule subscript_outside)
  moreover have "?v (Typical_Severity r) \<in> set (map ?v (map Typical_Severity df))"
    using assms(1) by auto
  moreover have "\<forall>x e. subscript color x = Inl e \<longrightarrow> e = KeyError"
    by (auto dest: subscript_KeyError)
  ultimately show ?thesis
    unfolding severity_color_def col by (simp add: comprehension_raises)
qed

lemma weight_size_raises:
  assumes "r \<in> set df"
    and "Likelihood_Of_Attack r \<notin> {None, Some ''High'', Some ''Medium'', Some ''Low''}"
  shows "weight_size df = Inl KeyError"
proof -
  let ?v = "\<lambda>c. case c of None \<Rightarrow> np_nan | Some s \<Rightarrow> Text s"
  have "Likelihood_Of_Attack r \<noteq> None" using assms(2) by auto
  then have col: "column (map Likelihood_Of_Attack df) = map ?v (map Likelihood_Of_Attack df)"
    using assms(1) by (intro column_object) auto
  have "\<not> (\<exists>v. subscript weights (?v (Likelihood_Of_Attack r)) = Inr v)"
    using assms(2) unfolding subscript_weights .
  then have "subscript weights (?v (Likelihood_Of_Attack r)) = Inl KeyError"
    by (rule subscript_outside)
  moreover have "?v (Likelihood_Of_Attack r) \<in> set (map ?v (map Likelihood_Of_Attack df))"
    using assms(1) by auto
  moreover have "\<forall>x e. subscript weights x = Inl e \<longrightarrow> e = KeyError"
    by (auto dest: subscript_KeyError)
  ultimately show ?thesis
    unfolding weight_size_def col by (simp add: comprehension_raises)
qed

lemma style_mapper_raises:
  assumes "r \<in> set df"
    and "Typical_Severity r \<notin> {None, Some ''Very High'', Some ''High'', Some ''Medium'',
                               Some ''Low'', Some ''Very Low'', Some ''None''}
      \<or> Likelihood_Of_Attack r \<notin> {None, Some ''High'', Some ''Medium'', Some ''Low''}"
  shows "style_mapper df = Inl KeyError"
proof (cases "severity_color df")
  case (Inl e)
  then have "e = KeyError"
    using comprehension_subscript_error by (simp add: severity_color_def)
  then show ?thesis using Inl by (simp add: style_mapper_def)
next
  case (Inr cs)
  then have "Likelihood_Of_Attack r \<notin> {None, Some ''High'', Some ''Medium'', Some ''Low''}"
    using assms severity_color_raises [OF assms(1)] by auto
  then have "weight_size df = Inl KeyError"
    using assms(1) by (intro weight_size_raises)
  then show ?thesis using Inr by (simp add: style_mapper_def)
qed

text \<open>A column with no cell but missing ones: the lookup of its first cell raises.\<close>

lemma style_mapper_all_missing:
  assumes "df \<noteq> []"
    and "(\<forall>r \<in> set df. Typical_Severity r = None) \<or> (\<forall>r \<in> set df. Likelihood_Of_Attack r = None)"
  shows "style_mapper df = Inl KeyError"
proof -
  have nan: "comprehension (subscript d) (replicate (length df) float_nan) = Inl KeyError" for d :: "(pyvalue \<times> 'v) list"
    using assms(1) by (cases df) (simp_all add: subscript_def)
  show ?thesis
  proof (cases "severity_color df")
    case (Inl e)
    then have "e = KeyError"
      using comprehension_subscript_error by (simp add: severity_color_def)
    then show ?thesis using Inl by (simp add: style_mapper_def)
  next
    case (Inr cs)
    have "\<not> (\<forall>r \<in> set df. Typical_Severity r = None)"
    proof
      assume "\<forall>r \<in> set df. Typical_Severity r = None"
      then have "column (map Typical_Severity df) = replicate (length df) float_nan"
        using assms(1) column_float [of "map Typical_Severity df"] by simp
      then show False using Inr nan [of color] by (simp add: severity_color_def)
    qed
    then have "\<forall>r \<in> set df. Likelihood_Of_Attack r = None" using assms(2) by blast
    then have "column (map Likelihood_Of_Attack df) = replicate (length df) float_nan"
      using assms(1) column_float [of "map Likelihood_Of_Attack df"] by simp
    then have "weight_size df = Inl KeyError"
      using nan [of weights] by (simp add: weight_size_def)
    then show ?thesis using Inr by (simp add: style_mapper_def)
  qed
qed

lemma example_df_styles:
  "style_mapper example_df
     = Inr ([''maroon'', ''maroon'', ''lightblue'', ''maroon''], [18, 18, 18, 35])"
  by (simp add: style_mapper_def severity_color_def weight_size_def column_def subscript_def
        color_def weights_def example_df_def example_row_def)

lemma example_catalog_styles:
  "style_mapper example_catalog = Inr (replicate 25 ''maroon'', replicate 25 18)"
  by code_simp

lemma example_df_enumerated:
  "\<forall>r \<in> set example_df.
        Typical_Severity r \<in> {None, Some ''Very High'', Some ''High'', Some ''Medium'',
                               Some ''Low'', Some ''Very Low'', Some ''None''}
      \<and> Likelihood_Of_Attack r \<in> {None, Some ''High'', Some ''Medium'', Some ''Low''}"
  by (simp add: example_df_def example_row_def)

lemma example_df_columns:
  "((\<exists>r \<in> set example_df. Typical_Severity r = None)
      \<longrightarrow> (\<exists>r \<in> set example_df. Typical_Severity r \<noteq> None))
   \<and> ((\<exists>r \<in> set example_df. Likelihood_Of_Attack r = None)
      \<longrightarrow> (\<exists>r \<in> set example_df. Likelihood_Of_Attack r \<noteq> None))"
  by (simp add: example_df_def example_row_def)

subsection \<open>Sampling for the dropdown's counts\<close>

lemma sample_dropdown_returned:
  assumes "cids \<in> {20, 30, 40, 50}" and "sample 500 cids src = Some (Inr (xs, src'))"
  shows "distinct xs \<and> length xs = nat cids \<and> set xs \<subseteq> {0..<500}"
proof -
  from assms have "selected_loop 500 (nat cids) {} [] src = Some (xs, src')"
    by (auto simp: sample_dropdown)
  from selected_loop_invariant [OF this] show ?thesis by simp
qed

lemma sample_dropdown_no_error:
  "cids \<in> {20, 30, 40, 50} \<Longrightarrow> sample 500 cids src \<noteq> Some (Inl e)"
  by (auto simp: sample_dropdown)

lemma sample_dropdown_accepts:
  assumes "cids \<in> {20, 30, 40, 50}"
    and "length xs = nat cids" and "distinct xs" and "set xs \<subseteq> {0..<500}"
  shows "sample 500 cids (xs @ rest) = Some (Inr (xs, rest))"
proof -
  have "selected_loop 500 (length xs) {} [] (xs @ rest) = Some ([] @ xs, rest)"
    using assms(3,4) by (intro selected_loop_accepts) simp_all
  then show ?thesis using assms(1,2) by (simp add: sample_dropdown)
qed

lemma update_figure_returned:
  assumes "update_figure df colors sizes cids src = Some (Inr (fig, src'))"
  shows "\<exists>src1. sample 500 cids src = Some (Inr (scatter_x fig, src1))
           \<and> sample 500 cids src1 = Some (Inr (scatter_y fig, src'))
           \<and> scatter_text fig = CAPECids df
           \<and> scatter_hovertext fig = map Name df
           \<and> textfont_size fig = sizes \<and> textfont_color fig = colors"
  using assms by (auto simp: update_figure_def split: option.splits sum.splits)

lemma update_figure_dropdown_no_error:
  "cids \<in> {20, 30, 40, 50} \<Longrightarrow> update_figure df colors sizes cids src \<noteq> Some (Inl e)"
  using sample_dropdown_no_error
  by (auto simp: update_figure_def split: option.splits sum.splits)

lemma update_figure_accepts:
  assumes "cids \<in> {20, 30, 40, 50}"
    and "length xs = nat cids" and "distinct xs" and "set xs \<subseteq> {0..<500}"
    and "length ys = nat cids" and "distinct ys" and "set ys \<subseteq> {0..<500}"
  shows "\<exists>fig. update_figure df colors sizes cids (xs @ ys @ rest) = Some (Inr (fig, rest))
           \<and> scatter_x fig = xs \<and> scatter_y fig = ys"
proof -
  have "sample 500 cids (xs @ ys @ rest) = Some (Inr (xs, ys @ rest))"
    using assms(1-4) by (rule sample_dropdown_accepts)
  moreover have "sample 500 cids (ys @ rest) = Some (Inr (ys, rest))"
    using assms(1,5-7) by (rule sample_dropdown_accepts)
  ultimately show ?thesis by (simp add: update_figure_def)
qed

lemma dropdown_sample_exists:
  assumes "cids \<in> {20, 30, 40, 50}"
  shows "length [0..<nat cids] = nat cids \<and> distinct [0..<nat cids]
           \<and> set [0..<nat cids] \<subseteq> {0..<500}"
  using assms by auto

lemma example_update_figure:
  "update_figure example_catalog (replicate 25 ''maroon'') (replicate 25 18) 20 example_source
     = Some (Inr (example_figure, [7]))"
  by code_simp

subsection \<open>The globals of the running application\<close>

lemma callback_keeps_globals:
  "callback wrap s req = Some (resp, s') \<Longrightarrow>
   server_df s' = server_df s \<and> server_colors s' = server_colors s
     \<and> server_sizes s' = server_sizes s"
  by (cases req) (auto split: option.splits sum.splits)

lemma serve_keeps_globals:
  "serve wrap s reqs = Some s' \<Longrightarrow>
   server_df s' = server_df s \<and> server_colors s' = server_colors s
     \<and> server_sizes s' = server_sizes s"
proof (induction reqs arbitrary: s)
  case Nil
  then show ?case by simp
next
  case (Cons req reqs)
  from Cons.prems obtain resp s1 where
    c: "callback wrap s req = Some (resp, s1)" and r: "serve wrap s1 reqs = Some s'"
    by (auto split: option.splits)
  show ?case using Cons.IH [OF r] callback_keeps_globals [OF c] by simp
qed

lemma example_serve:
  "serve (\<lambda>description width. [description]) example_server
     [OnClick (Some 0), UpdateFigure 20, UpdateTable ''weakness'' (Some 0)]
     = Some (example_server\<lparr>server_random := [7]\<rparr>)"
  using example_update_figure by (simp add: example_server_def)

section \<open>The claims\<close>

text \<open>
  C7. With no point selected (\<^verbatim>\<open>clickData\<close> is \<^verbatim>\<open>None\<close>), \<^verbatim>\<open>on_click\<close> returns its
  fixed placeholder paragraph (in a 1-tuple, as the trailing comma of its \<^verbatim>\<open>return\<close>
  makes it) and \<^verbatim>\<open>update_table\<close> returns its fixed placeholder paragraph, whatever
  the catalog and whatever the radio value.
\<close>

theorem no_selection_placeholders:
  "on_click wrap df None =
     Inr (TupleOf [P (Str ''Click on a CAPEC ID to see a description of the attack pattern'')
                     (Some [(''color'', CStr ''grey''), (''fontSize'', CInt 15)])])
   \<and> update_table df value None =
     Inr (P (Str ''If a CAPEC ID is clicked, information will be displayed here.'')
            (Some [(''color'', CStr ''grey''), (''fontSize'', CInt 15)]))"
  by (simp add: on_click_def update_table_def grey15_def)

theorem no_selection_placeholders_witness:
  "on_click (\<lambda>description width. [description]) example_df None =
     Inr (TupleOf [P (Str ''Click on a CAPEC ID to see a description of the attack pattern'')
                     (Some [(''color'', CStr ''grey''), (''fontSize'', CInt 15)])])
   \<and> update_table example_df ''weakness'' None =
     Inr (P (Str ''If a CAPEC ID is clicked, information will be displayed here.'')
            (Some [(''color'', CStr ''grey''), (''fontSize'', CInt 15)]))"
  by (rule no_selection_placeholders)

text \<open>
  C4. For a row number \<open>i\<close> of the table whose \<^verbatim>\<open>Related Weaknesses\<close> cell holds the
  text \<open>w\<close>, \<^verbatim>\<open>update_table\<close> with the value \<^verbatim>\<open>weakness\<close> returns a component whose
  links are, in order, \<^verbatim>\<open>https://cwe.mitre.org/data/definitions/{id}\<close> for each segment
  of \<open>w.split('::')\<close> except the first and the last: one link per remaining segment and
  no other. On \<^verbatim>\<open>::123::456::\<close> these are the links for 123 and 456.
\<close>

theorem weakness_links:
  assumes "0 \<le> i" and "i < int (length df)" and "Related_Weaknesses (df ! nat i) = Some w"
  shows "\<exists>out. update_table df ''weakness'' (Some i) = Inr out
           \<and> hrefs out = map cwe_link (slice_1_m1 (split_on ''::'' w))
           \<and> length (hrefs out) = length (split_on ''::'' w) - 2
           \<and> (\<forall>first middle last. split_on ''::'' w = first # middle @ [last]
                 \<longrightarrow> hrefs out = map cwe_link middle)"
proof -
  let ?out = "Div (ListOf
             [P (Str ''Below you will find a link of realted weaknesses from the Common Weakness Enumeration (CWE) catolog'') (Some grey15),
              P (ListOf (map (\<lambda>cwe. P (A (Str (cwe_link cwe)) (cwe_link cwe) ''_blank'') (Some grey15))
                          (slice_1_m1 (split_on ''::'' w)))) None])"
  have out: "update_table df ''weakness'' (Some i) = Inr ?out"
    using assms by (rule update_table_weakness)
  have h: "hrefs ?out = map cwe_link (slice_1_m1 (split_on ''::'' w))"
    using hrefs_cwe_paragraphs [of "slice_1_m1 (split_on ''::'' w)"] by simp
  have "length (hrefs ?out) = length (split_on ''::'' w) - 2"
    unfolding h by (simp add: length_slice_1_m1)
  moreover have "\<forall>first middle last. split_on ''::'' w = first # middle @ [last]
                 \<longrightarrow> hrefs ?out = map cwe_link middle"
    unfolding h by (auto simp: slice_1_m1_frame)
  ultimately show ?thesis using out h by blast
qed

theorem weakness_links_witness:
  "(0::int) \<le> 0 \<and> (0::int) < int (length example_df)
   \<and> Related_Weaknesses (example_df ! nat 0) = Some ''::123::456::''
   \<and> (\<exists>out. update_table example_df ''weakness'' (Some 0) = Inr out
        \<and> hrefs out = [''https://cwe.mitre.org/data/definitions/123'',
                        ''https://cwe.mitre.org/data/definitions/456''])"
proof -
  have a: "(0::int) \<le> 0" by simp
  have b: "(0::int) < int (length example_df)" by (simp add: example_df_def)
  have c: "Related_Weaknesses (example_df ! nat 0) = Some ''::123::456::''"
    by (simp add: example_df_def example_row_def)
  have s: "split_on ''::'' ''::123::456::'' = [] # [''123'', ''456''] @ [[]]" by simp
  from weakness_links [OF a b c] obtain out where
    "update_table example_df ''weakness'' (Some 0) = Inr out"
    "\<forall>first middle last. split_on ''::'' ''::123::456::'' = first # middle @ [last]
        \<longrightarrow> hrefs out = map cwe_link middle"
    by blast
  then have "update_table example_df ''weakness'' (Some 0) = Inr out
      \<and> hrefs out = map cwe_link [''123'', ''456'']"
    using s by blast
  then show ?thesis using a b c by (auto simp: cwe_link_def)
qed

text \<open>
  C6. For a row number \<open>i\<close> of the table and each of the three radio values: when the
  row's cell for that value is absent (NaN), \<^verbatim>\<open>update_table\<close> returns, without raising,
  the fixed message of that branch: the red paragraph \<^verbatim>\<open>No weakness data available\<close>,
  the red paragraph \<^verbatim>\<open>No example instance data available\<close>, or the plain string
  \<^verbatim>\<open>No mitigation available\<close>.
\<close>

theorem absent_field_messages:
  assumes "0 \<le> i" and "i < int (length df)"
  shows "(Related_Weaknesses (df ! nat i) = None \<longrightarrow>
            update_table df ''weakness'' (Some i) =
              Inr (P (Str ''No weakness data available'')
                     (Some [(''color'', CStr ''red''), (''fontSize'', CInt 15)])))
       \<and> (Example_Instances (df ! nat i) = None \<longrightarrow>
            update_table df ''instance'' (Some i) =
              Inr (P (Str ''No example instance data available'')
                     (Some [(''color'', CStr ''red''), (''fontSize'', CInt 15)])))
       \<and> (Mitigations (df ! nat i) = None \<longrightarrow>
            update_table df ''mitigation'' (Some i) = Inr (Str ''No mitigation available''))"
  using assms by (simp add: update_table_def loc_def red15_def)

theorem absent_field_messages_witness:
  "(0::int) \<le> 2 \<and> (2::int) < int (length example_df)
   \<and> Related_Weaknesses (example_df ! nat 2) = None
   \<and> update_table example_df ''weakness'' (Some 2) =
        Inr (P (Str ''No weakness data available'')
               (Some [(''color'', CStr ''red''), (''fontSize'', CInt 15)]))
   \<and> Example_Instances (example_df ! nat 1) = None
   \<and> update_table example_df ''instance'' (Some 1) =
        Inr (P (Str ''No example instance data available'')
               (Some [(''color'', CStr ''red''), (''fontSize'', CInt 15)]))
   \<and> Mitigations (example_df ! nat 0) = None
   \<and> update_table example_df ''mitigation'' (Some 0) = Inr (Str ''No mitigation available'')"
proof -
  have a: "(0::int) \<le> 2" "(0::int) \<le> 1" "(0::int) \<le> 0" by simp_all
  have b: "(2::int) < int (length example_df)" "(1::int) < int (length example_df)"
    "(0::int) < int (length example_df)"
    by (simp_all add: example_df_def)
  have c: "Related_Weaknesses (example_df ! nat 2) = None"
    "Example_Instances (example_df ! nat 1) = None"
    "Mitigations (example_df ! nat 0) = None"
    by (simp_all add: example_df_def example_row_def)
  show ?thesis
    using absent_field_messages [OF a(1) b(1)] absent_field_messages [OF a(2) b(2)]
      absent_field_messages [OF a(3) b(3)] a b c
    by simp
qed



text \<open>
  C10. For a row number \<open>i\<close> of the table whose \<^verbatim>\<open>Related Weaknesses\<close> cell holds any
  text \<open>w\<close>, framed by \<^verbatim>\<open>::\<close> or not: when \<open>w\<close> is colon-free segments put together
  with \<^verbatim>\<open>::\<close> between them, the links that \<^verbatim>\<open>update_table\<close> returns for
  \<^verbatim>\<open>weakness\<close> are those of the segments strictly between the first and the last,
  whatever the first and the last segment are (the same holds of the segments of
  \<open>w.split('::')\<close> in general); when \<open>w\<close> contains no \<^verbatim>\<open>::\<close> at all, there is no
  link. The text \<^verbatim>\<open>1::2::3\<close> gives the one link for 2, the text \<^verbatim>\<open>CWE-79\<close> none.
\<close>

theorem unframed_weakness_text:
  assumes "0 \<le> i" and "i < int (length df)" and "Related_Weaknesses (df ! nat i) = Some w"
  shows "\<exists>out. update_table df ''weakness'' (Some i) = Inr out
           \<and> (\<forall>x middle z.
                 (\<forall>seg \<in> set (x # middle @ [z]). CHR '':'' \<notin> set seg)
               \<and> w = x @ concat (map (\<lambda>seg. ''::'' @ seg) (middle @ [z]))
               \<longrightarrow> hrefs out = map (\<lambda>seg. ''https://cwe.mitre.org/data/definitions/'' @ seg) middle)
           \<and> (\<forall>x middle z. split_on ''::'' w = x # middle @ [z]
                 \<longrightarrow> hrefs out = map cwe_link middle)
           \<and> ((\<nexists>a b. w = a @ ''::'' @ b) \<longrightarrow> hrefs out = [])"
proof -
  let ?out = "Div (ListOf
             [P (Str ''Below you will find a link of realted weaknesses from the Common Weakness Enumeration (CWE) catolog'') (Some grey15),
              P (ListOf (map (\<lambda>cwe. P (A (Str (cwe_link cwe)) (cwe_link cwe) ''_blank'') (Some grey15))
                          (slice_1_m1 (split_on ''::'' w)))) None])"
  have out: "update_table df ''weakness'' (Some i) = Inr ?out"
    using assms by (rule update_table_weakness)
  have h: "hrefs ?out = map cwe_link (slice_1_m1 (split_on ''::'' w))"
    using hrefs_cwe_paragraphs [of "slice_1_m1 (split_on ''::'' w)"] by simp
  have link: "cwe_link = (\<lambda>seg. ''https://cwe.mitre.org/data/definitions/'' @ seg)"
    by (rule ext) (simp add: cwe_link_def)
  have model: "\<forall>x middle z. split_on ''::'' w = x # middle @ [z]
      \<longrightarrow> hrefs ?out = map cwe_link middle"
    unfolding h by (auto simp: slice_1_m1_frame)
  have "hrefs ?out = map (\<lambda>seg. ''https://cwe.mitre.org/data/definitions/'' @ seg) middle"
    if free: "\<forall>seg \<in> set (x # middle @ [z]). CHR '':'' \<notin> set seg"
      and w: "w = x @ concat (map (\<lambda>seg. ''::'' @ seg) (middle @ [z]))" for x middle z
  proof -
    have "\<forall>seg \<in> set (x # middle @ [z]). set seg \<inter> set ''::'' = {}" using free by auto
    then have "split_on ''::'' w = x # middle @ [z]"
      unfolding w by (intro split_on_joined) simp_all
    then show ?thesis using model link by simp
  qed
  then have explicit: "\<forall>x middle z.
                 (\<forall>seg \<in> set (x # middle @ [z]). CHR '':'' \<notin> set seg)
               \<and> w = x @ concat (map (\<lambda>seg. ''::'' @ seg) (middle @ [z]))
               \<longrightarrow> hrefs ?out = map (\<lambda>seg. ''https://cwe.mitre.org/data/definitions/'' @ seg) middle"
    by blast
  have none: "(\<nexists>a b. w = a @ ''::'' @ b) \<longrightarrow> hrefs ?out = []"
  proof
    assume "\<nexists>a b. w = a @ ''::'' @ b"
    then have "\<not> contains ''::'' w" unfolding contains_iff .
    then have "split_on ''::'' w = [w]" by (rule split_on_no_sep)
    then show "hrefs ?out = []" unfolding h by (simp add: slice_1_m1_def)
  qed
  show ?thesis using out explicit model none by blast
qed

theorem unframed_weakness_text_witness:
  "(0::int) \<le> 1 \<and> (1::int) < int (length example_df)
   \<and> Related_Weaknesses (example_df ! nat 1) = Some ''1::2::3''
   \<and> (\<exists>out. update_table example_df ''weakness'' (Some 1) = Inr out
         \<and> hrefs out = [''https://cwe.mitre.org/data/definitions/2''])
   \<and> (0::int) \<le> 3 \<and> (3::int) < int (length example_df)
   \<and> Related_Weaknesses (example_df ! nat 3) = Some ''CWE-79''
   \<and> (\<exists>out. update_table example_df ''weakness'' (Some 3) = Inr out \<and> hrefs out = [])"
proof -
  have a1: "(0::int) \<le> 1" and a3: "(0::int) \<le> 3" by simp_all
  have b1: "(1::int) < int (length example_df)" and b3: "(3::int) < int (length example_df)"
    by (simp_all add: example_df_def)
  have c1: "Related_Weaknesses (example_df ! nat 1) = Some ''1::2::3''"
    by (simp add: example_df_def example_row_def)
  have c3: "Related_Weaknesses (example_df ! nat 3) = Some ''CWE-79''"
    by (simp add: example_df_def example_row_def eval_nat_numeral)
  have segs: "(\<forall>seg \<in> set (''1'' # [''2''] @ [''3'']). CHR '':'' \<notin> set seg)
      \<and> ''1::2::3'' = ''1'' @ concat (map (\<lambda>seg. ''::'' @ seg) ([''2''] @ [''3'']))"
    by simp
  from unframed_weakness_text [OF a1 b1 c1] obtain out1 where
    o1: "update_table example_df ''weakness'' (Some 1) = Inr out1" and
    "\<forall>x middle z.
         (\<forall>seg \<in> set (x # middle @ [z]). CHR '':'' \<notin> set seg)
       \<and> ''1::2::3'' = x @ concat (map (\<lambda>seg. ''::'' @ seg) (middle @ [z]))
       \<longrightarrow> hrefs out1 = map (\<lambda>seg. ''https://cwe.mitre.org/data/definitions/'' @ seg) middle"
    by blast
  with segs have "hrefs out1 = map (\<lambda>seg. ''https://cwe.mitre.org/data/definitions/'' @ seg) [''2'']"
    by blast
  then have h1: "hrefs out1 = [''https://cwe.mitre.org/data/definitions/2'']" by simp
  have free: "\<nexists>a b. ''CWE-79'' = a @ ''::'' @ b"
    unfolding contains_iff [symmetric] by simp
  from unframed_weakness_text [OF a3 b3 c3] free obtain out3 where
    o3: "update_table example_df ''weakness'' (Some 3) = Inr out3" "hrefs out3 = []"
    by blast
  show ?thesis using a1 b1 c1 o1 h1 a3 b3 c3 o3 by blast
qed

text \<open>
  C5. For a row number \<open>i\<close> of the table, \<^verbatim>\<open>on_click\<close> returns a \<^verbatim>\<open>Div\<close> of a heading
  with the row's name, a paragraph with the lines of
  \<^verbatim>\<open>textwrap.wrap(description, width=100)\<close>, each line after the first behind a line
  break, and a paragraph with the link
  \<^verbatim>\<open>https://capec.mitre.org/data/definitions/{id}\<close> of the row's ID, as text and as
  target. When no line holds a line break, the paragraph cut at its line breaks is the
  wrapped lines again, and when moreover no line is longer than 100 characters, no line
  of the paragraph is. For the first row of a catalog with name \<^verbatim>\<open>X\<close> and ID
  \<^verbatim>\<open>CAPEC-1\<close> the output contains \<^verbatim>\<open>X\<close>, the two lines of its description and
  \<^verbatim>\<open>https://capec.mitre.org/data/definitions/CAPEC-1\<close>.
\<close>

theorem describe_selected_row:
  assumes "0 \<le> i" and "i < int (length df)"
  shows "\<exists>out paragraph.
           on_click wrap df (Some i) = Inr out
         \<and> out = Div (ListOf
               [H3 (Str (Name (df ! nat i)))
                   (Some [(''color'', CStr ''darkgrey''), (''fontSize'', CInt 25)]),
                P (Str paragraph)
                  (Some [(''color'', CStr ''grey''), (''fontSize'', CInt 15)]),
                P (ListOf [Str ''To learn more follow this link: '',
                           A (Str (''https://capec.mitre.org/data/definitions/'' @ ID (df ! nat i)))
                             (''https://capec.mitre.org/data/definitions/'' @ ID (df ! nat i))
                             ''_blank''])
                  (Some [(''color'', CStr ''grey''), (''fontSize'', CInt 12)])])
         \<and> paragraph =
             (case wrap (Description (df ! nat i)) 100 of
                [] \<Rightarrow> []
              | l # ls \<Rightarrow> l @ concat (map (\<lambda>x. CHR 0x0A # x) ls))
         \<and> (wrap (Description (df ! nat i)) 100 \<noteq> []
              \<and> (\<forall>l \<in> set (wrap (Description (df ! nat i)) 100). CHR 0x0A \<notin> set l)
              \<longrightarrow> split_on [CHR 0x0A] paragraph = wrap (Description (df ! nat i)) 100)
         \<and> ((\<forall>l \<in> set (wrap (Description (df ! nat i)) 100).
                 length l \<le> 100 \<and> CHR 0x0A \<notin> set l)
              \<longrightarrow> (\<forall>l \<in> set (split_on [CHR 0x0A] paragraph). length l \<le> 100))
         \<and> texts out =
             [Name (df ! nat i), paragraph, ''To learn more follow this link: '',
              ''https://capec.mitre.org/data/definitions/'' @ ID (df ! nat i)]
         \<and> hrefs out = [''https://capec.mitre.org/data/definitions/'' @ ID (df ! nat i)]"
proof -
  let ?lines = "wrap (Description (df ! nat i)) 100"
  let ?paragraph = "case ?lines of [] \<Rightarrow> [] | l # ls \<Rightarrow> l @ concat (map (\<lambda>x. CHR 0x0A # x) ls)"
  let ?link = "''https://capec.mitre.org/data/definitions/'' @ ID (df ! nat i)"
  let ?out = "Div (ListOf
               [H3 (Str (Name (df ! nat i)))
                   (Some [(''color'', CStr ''darkgrey''), (''fontSize'', CInt 25)]),
                P (Str ?paragraph)
                  (Some [(''color'', CStr ''grey''), (''fontSize'', CInt 15)]),
                P (ListOf [Str ''To learn more follow this link: '', A (Str ?link) ?link ''_blank''])
                  (Some [(''color'', CStr ''grey''), (''fontSize'', CInt 12)])])"
  have cons: "(@) [CHR 0x0A] = (#) (CHR 0x0A)"
    by (rule ext) simp
  have join: "str_join newline ?lines = ?paragraph"
    by (simp add: str_join_explicit newline_def cons split: list.splits)
  have out: "on_click wrap df (Some i) = Inr ?out"
    using assms by (simp add: on_click_def loc_def grey15_def capec_link_def Let_def join)
  have round_trip: "?lines \<noteq> [] \<and> (\<forall>l \<in> set ?lines. CHR 0x0A \<notin> set l)
      \<longrightarrow> split_on [CHR 0x0A] ?paragraph = ?lines"
  proof
    assume a: "?lines \<noteq> [] \<and> (\<forall>l \<in> set ?lines. CHR 0x0A \<notin> set l)"
    then obtain l0 ls where l: "?lines = l0 # ls" by (cases ?lines) auto
    then have "\<forall>l \<in> set (l0 # ls). CHR 0x0A \<notin> set l" using a by simp
    from split_on_newline_joined [OF this] show "split_on [CHR 0x0A] ?paragraph = ?lines"
      by (simp add: l)
  qed
  have width: "(\<forall>l \<in> set ?lines. length l \<le> 100 \<and> CHR 0x0A \<notin> set l)
      \<longrightarrow> (\<forall>l \<in> set (split_on [CHR 0x0A] ?paragraph). length l \<le> 100)"
  proof
    assume a: "\<forall>l \<in> set ?lines. length l \<le> 100 \<and> CHR 0x0A \<notin> set l"
    show "\<forall>l \<in> set (split_on [CHR 0x0A] ?paragraph). length l \<le> 100"
    proof (cases "?lines = []")
      case True
      then show ?thesis by simp
    next
      case False
      then have "split_on [CHR 0x0A] ?paragraph = ?lines" using round_trip a by blast
      then show ?thesis using a by simp
    qed
  qed
  have t: "texts ?out = [Name (df ! nat i), ?paragraph, ''To learn more follow this link: '', ?link]"
    by simp
  have h: "hrefs ?out = [?link]" by simp
  show ?thesis
    using out round_trip width t h by blast
qed

theorem describe_selected_row_witness:
  "(0::int) \<le> 0 \<and> (0::int) < int (length example_df)
   \<and> Name (example_df ! nat 0) = ''X'' \<and> ID (example_df ! nat 0) = ''CAPEC-1''
   \<and> (\<exists>out. on_click (\<lambda>description width. example_lines) example_df (Some 0) = Inr out
         \<and> texts out =
             [''X'',
              ''An adversary sends a crafted request to the server and reads the reply in order to learn which''
                @ [CHR 0x0A] @ ''versions of the software are running there.'',
              ''To learn more follow this link: '',
              ''https://capec.mitre.org/data/definitions/CAPEC-1'']
         \<and> hrefs out = [''https://capec.mitre.org/data/definitions/CAPEC-1'']
         \<and> split_on [CHR 0x0A] (texts out ! 1) =
             [''An adversary sends a crafted request to the server and reads the reply in order to learn which'',
              ''versions of the software are running there.''])"
proof -
  have a: "(0::int) \<le> 0" by simp
  have b: "(0::int) < int (length example_df)" by (simp add: example_df_def)
  have n: "Name (example_df ! nat 0) = ''X''" and c: "ID (example_df ! nat 0) = ''CAPEC-1''"
    by (simp_all add: example_df_def example_row_def)
  have free: "example_lines \<noteq> [] \<and> (\<forall>l \<in> set example_lines. CHR 0x0A \<notin> set l)"
    by (simp add: example_lines_def)
  from describe_selected_row [OF a b, of "\<lambda>description width. example_lines"]
  obtain out par where
    o: "on_click (\<lambda>description width. example_lines) example_df (Some 0) = Inr out" and
    p: "par = (case example_lines of [] \<Rightarrow> []
                     | l # ls \<Rightarrow> l @ concat (map (\<lambda>x. CHR 0x0A # x) ls))" and
    s: "example_lines \<noteq> [] \<and> (\<forall>l \<in> set example_lines. CHR 0x0A \<notin> set l)
          \<longrightarrow> split_on [CHR 0x0A] par = example_lines" and
    t: "texts out =
             [Name (example_df ! nat 0), par, ''To learn more follow this link: '',
              ''https://capec.mitre.org/data/definitions/'' @ ID (example_df ! nat 0)]" and
    h: "hrefs out = [''https://capec.mitre.org/data/definitions/'' @ ID (example_df ! nat 0)]"
    by blast
  have p': "par =
      ''An adversary sends a crafted request to the server and reads the reply in order to learn which''
        @ [CHR 0x0A] @ ''versions of the software are running there.''"
    unfolding p by (simp add: example_lines_def)
  have s': "split_on [CHR 0x0A] par =
             [''An adversary sends a crafted request to the server and reads the reply in order to learn which'',
              ''versions of the software are running there.'']"
    using s free by (simp add: example_lines_def)
  have "texts out ! 1 = par" using t by simp
  then show ?thesis using a b n c o t h p' s' by simp
qed

text \<open>
  C2, as the specification states it: the Style Mapper yields a color and a size for every
  row, also for a severity or likelihood outside the tables. It does not: the lookups
  are \<^verbatim>\<open>color[val]\<close> and \<^verbatim>\<open>weights[val]\<close>, and a severity \<^verbatim>\<open>Unknown\<close> raises KeyError.
\<close>

theorem style_mapper_unknown_severity:
  "style_mapper [example_row\<lparr>Typical_Severity := Some ''Unknown''\<rparr>] = Inl KeyError"
  by (simp add: style_mapper_def severity_color_def column_def subscript_def color_def
        example_row_def)

text \<open>
  C2, amended. For a catalog in which every severity is missing or a key of \<^verbatim>\<open>color\<close>,
  every likelihood is missing or a key of \<^verbatim>\<open>weights\<close>, and a column that has a
  missing cell also has a cell with text, the Style Mapper returns exactly one color and
  one size per row: for a text the entry of the dictionary, for a missing severity the
  color of \<^verbatim>\<open>None\<close>, for a missing likelihood the size of \<^verbatim>\<open>Low\<close>. A severity or
  likelihood that is no key of its table raises KeyError.
\<close>

theorem style_mapper_enumerated:
  "((\<forall>r \<in> set df.
        Typical_Severity r \<in> {None, Some ''Very High'', Some ''High'', Some ''Medium'',
                               Some ''Low'', Some ''Very Low'', Some ''None''}
      \<and> Likelihood_Of_Attack r \<in> {None, Some ''High'', Some ''Medium'', Some ''Low''})
    \<and> ((\<exists>r \<in> set df. Typical_Severity r = None) \<longrightarrow> (\<exists>r \<in> set df. Typical_Severity r \<noteq> None))
    \<and> ((\<exists>r \<in> set df. Likelihood_Of_Attack r = None)
          \<longrightarrow> (\<exists>r \<in> set df. Likelihood_Of_Attack r \<noteq> None))
     \<longrightarrow> (\<exists>cs ws. style_mapper df = Inr (cs, ws)
            \<and> length cs = length df \<and> length ws = length df
            \<and> (\<forall>i < length df.
                  (case Typical_Severity (df ! i) of
                     None \<Rightarrow> subscript color (Text ''None'') = Inr (cs ! i)
                   | Some s \<Rightarrow> subscript color (Text s) = Inr (cs ! i))
                \<and> (case Likelihood_Of_Attack (df ! i) of
                     None \<Rightarrow> subscript weights (Text ''Low'') = Inr (ws ! i)
                   | Some s \<Rightarrow> subscript weights (Text s) = Inr (ws ! i)))))
   \<and> ((\<exists>r \<in> set df.
          Typical_Severity r \<notin> {None, Some ''Very High'', Some ''High'', Some ''Medium'',
                                 Some ''Low'', Some ''Very Low'', Some ''None''}
        \<or> Likelihood_Of_Attack r \<notin> {None, Some ''High'', Some ''Medium'', Some ''Low''})
     \<longrightarrow> style_mapper df = Inl KeyError)
   \<and> subscript color (Text ''None'') = Inr ''lightblue''
   \<and> subscript weights (Text ''Low'') = Inr 18"
proof -
  have total: "\<exists>cs ws. style_mapper df = Inr (cs, ws)
            \<and> length cs = length df \<and> length ws = length df
            \<and> (\<forall>i < length df.
                  (case Typical_Severity (df ! i) of
                     None \<Rightarrow> subscript color (Text ''None'') = Inr (cs ! i)
                   | Some s \<Rightarrow> subscript color (Text s) = Inr (cs ! i))
                \<and> (case Likelihood_Of_Attack (df ! i) of
                     None \<Rightarrow> subscript weights (Text ''Low'') = Inr (ws ! i)
                   | Some s \<Rightarrow> subscript weights (Text s) = Inr (ws ! i)))"
    if enum: "\<forall>r \<in> set df.
        Typical_Severity r \<in> {None, Some ''Very High'', Some ''High'', Some ''Medium'',
                               Some ''Low'', Some ''Very Low'', Some ''None''}
      \<and> Likelihood_Of_Attack r \<in> {None, Some ''High'', Some ''Medium'', Some ''Low''}"
    and sev: "(\<exists>r \<in> set df. Typical_Severity r = None)
                \<longrightarrow> (\<exists>r \<in> set df. Typical_Severity r \<noteq> None)"
    and lik: "(\<exists>r \<in> set df. Likelihood_Of_Attack r = None)
                \<longrightarrow> (\<exists>r \<in> set df. Likelihood_Of_Attack r \<noteq> None)"
  proof -
    from enum have "\<forall>r \<in> set df.
        Typical_Severity r \<in> {None, Some ''Very High'', Some ''High'', Some ''Medium'',
                               Some ''Low'', Some ''Very Low'', Some ''None''}" by blast
    from severity_color_total [OF this sev] obtain cs where
      cs: "severity_color df = Inr cs" "length cs = length df"
        "\<forall>i < length df.
                  (case Typical_Severity (df ! i) of
                     None \<Rightarrow> subscript color (Text ''None'') = Inr (cs ! i)
                   | Some s \<Rightarrow> subscript color (Text s) = Inr (cs ! i))"
      by blast
    from enum have "\<forall>r \<in> set df.
        Likelihood_Of_Attack r \<in> {None, Some ''High'', Some ''Medium'', Some ''Low''}" by blast
    from weight_size_total [OF this lik] obtain ws where
      ws: "weight_size df = Inr ws" "length ws = length df"
        "\<forall>i < length df.
                  (case Likelihood_Of_Attack (df ! i) of
                     None \<Rightarrow> subscript weights (Text ''Low'') = Inr (ws ! i)
                   | Some s \<Rightarrow> subscript weights (Text s) = Inr (ws ! i))"
      by blast
    have "style_mapper df = Inr (cs, ws)" using cs(1) ws(1) by (simp add: style_mapper_def)
    then show ?thesis using cs(2,3) ws(2,3) by blast
  qed
  have raises: "(\<exists>r \<in> set df.
          Typical_Severity r \<notin> {None, Some ''Very High'', Some ''High'', Some ''Medium'',
                                 Some ''Low'', Some ''Very Low'', Some ''None''}
        \<or> Likelihood_Of_Attack r \<notin> {None, Some ''High'', Some ''Medium'', Some ''Low''})
     \<longrightarrow> style_mapper df = Inl KeyError"
    using style_mapper_raises [of _ df] by blast
  have c: "subscript color (Text ''None'') = Inr ''lightblue''"
    by (simp add: subscript_def color_def)
  have w: "subscript weights (Text ''Low'') = Inr 18"
    by (simp add: subscript_def weights_def)
  show ?thesis using total raises c w by blast
qed

theorem style_mapper_enumerated_witness:
  "set (map Typical_Severity example_df)
     \<subseteq> {None, Some ''Very High'', Some ''High'', Some ''Medium'',
         Some ''Low'', Some ''Very Low'', Some ''None''}
   \<and> set (map Likelihood_Of_Attack example_df)
     \<subseteq> {None, Some ''High'', Some ''Medium'', Some ''Low''}
   \<and> map Typical_Severity example_df = [Some ''High'', Some ''High'', None, Some ''High'']
   \<and> map Likelihood_Of_Attack example_df = [Some ''Low'', None, Some ''Low'', Some ''High'']
   \<and> (\<exists>cs ws. style_mapper example_df = Inr (cs, ws)
         \<and> cs = [''maroon'', ''maroon'', ''lightblue'', ''maroon''] \<and> ws = [18, 18, 18, 35]
         \<and> length cs = length example_df \<and> length ws = length example_df)
   \<and> Likelihood_Of_Attack (example_row\<lparr>Likelihood_Of_Attack := Some ''Very High''\<rparr>)
        \<notin> {None, Some ''High'', Some ''Medium'', Some ''Low''}
   \<and> style_mapper [example_row\<lparr>Likelihood_Of_Attack := Some ''Very High''\<rparr>] = Inl KeyError"
proof -
  from style_mapper_enumerated [of example_df] example_df_enumerated example_df_columns
  obtain cs ws where st: "style_mapper example_df = Inr (cs, ws)"
    and len: "length cs = length example_df" "length ws = length example_df"
    by blast
  from st have "cs = [''maroon'', ''maroon'', ''lightblue'', ''maroon'']" "ws = [18, 18, 18, 35]"
    using example_df_styles by simp_all
  then have enumerated: "\<exists>cs ws. style_mapper example_df = Inr (cs, ws)
         \<and> cs = [''maroon'', ''maroon'', ''lightblue'', ''maroon''] \<and> ws = [18, 18, 18, 35]
         \<and> length cs = length example_df \<and> length ws = length example_df"
    using st len by blast
  have out: "Likelihood_Of_Attack (example_row\<lparr>Likelihood_Of_Attack := Some ''Very High''\<rparr>)
        \<notin> {None, Some ''High'', Some ''Medium'', Some ''Low''}"
    by simp
  then have raised: "style_mapper [example_row\<lparr>Likelihood_Of_Attack := Some ''Very High''\<rparr>]
      = Inl KeyError"
    using style_mapper_enumerated [of "[example_row\<lparr>Likelihood_Of_Attack := Some ''Very High''\<rparr>]"]
    by simp
  have cols: "set (map Typical_Severity example_df)
     \<subseteq> {None, Some ''Very High'', Some ''High'', Some ''Medium'',
         Some ''Low'', Some ''Very Low'', Some ''None''}"
    "set (map Likelihood_Of_Attack example_df)
     \<subseteq> {None, Some ''High'', Some ''Medium'', Some ''Low''}"
    "map Typical_Severity example_df = [Some ''High'', Some ''High'', None, Some ''High'']"
    "map Likelihood_Of_Attack example_df = [Some ''Low'', None, Some ''Low'', Some ''High'']"
    by (simp_all add: example_df_def example_row_def)
  show ?thesis using cols enumerated out raised by blast
qed

text \<open>
  C1. For a count in \<open>{20, 30, 40, 50}\<close>, \<^verbatim>\<open>update_figure\<close> raises nothing and does return
  a figure; every figure it returns has exactly that many points, and the labels of the
  points are the first that many entries of the ID column, in table order: point \<open>i\<close>
  carries the ID of row \<open>i\<close>.
\<close>

theorem figure_points_and_labels:
  assumes "cids \<in> {20, 30, 40, 50}"
  shows "(\<forall>src e. update_figure df colors sizes cids src \<noteq> Some (Inl e))
       \<and> (\<exists>src fig src'. update_figure df colors sizes cids src = Some (Inr (fig, src')))
       \<and> (\<forall>src fig src'. update_figure df colors sizes cids src = Some (Inr (fig, src'))
            \<longrightarrow> point_count fig = nat cids
              \<and> point_labels fig = take (nat cids) (CAPECids df)
              \<and> (\<forall>i < nat cids. i < length df \<longrightarrow> point_labels fig ! i = ID (df ! i)))"
proof -
  have no_error: "\<forall>src e. update_figure df colors sizes cids src \<noteq> Some (Inl e)"
    using assms update_figure_dropdown_no_error by blast
  have returns: "\<exists>src fig src'. update_figure df colors sizes cids src = Some (Inr (fig, src'))"
  proof -
    from dropdown_sample_exists [OF assms]
    have "\<exists>fig. update_figure df colors sizes cids ([0..<nat cids] @ [0..<nat cids] @ [])
            = Some (Inr (fig, [])) \<and> scatter_x fig = [0..<nat cids]
            \<and> scatter_y fig = [0..<nat cids]"
      by (intro update_figure_accepts [OF assms]) simp_all
    then show ?thesis by blast
  qed
  have labels: "point_count fig = nat cids
              \<and> point_labels fig = take (nat cids) (CAPECids df)
              \<and> (\<forall>i < nat cids. i < length df \<longrightarrow> point_labels fig ! i = ID (df ! i))"
    if ret: "update_figure df colors sizes cids src = Some (Inr (fig, src'))" for src fig src'
  proof -
    from update_figure_returned [OF ret] obtain src1 where
      x: "sample 500 cids src = Some (Inr (scatter_x fig, src1))" and
      y: "sample 500 cids src1 = Some (Inr (scatter_y fig, src'))" and
      t: "scatter_text fig = CAPECids df"
      by blast
    have "length (scatter_x fig) = nat cids" "length (scatter_y fig) = nat cids"
      using sample_dropdown_returned [OF assms x] sample_dropdown_returned [OF assms y]
      by simp_all
    then have c: "point_count fig = nat cids" by (simp add: point_count_def)
    then have l: "point_labels fig = take (nat cids) (CAPECids df)"
      using t by (simp add: point_labels_def)
    have "\<forall>i < nat cids. i < length df \<longrightarrow> point_labels fig ! i = ID (df ! i)"
      unfolding l by (simp add: CAPECids_def)
    then show ?thesis using c l by blast
  qed
  show ?thesis using no_error returns labels by blast
qed

theorem figure_points_and_labels_witness:
  "(20::int) \<in> {20, 30, 40, 50}
   \<and> update_figure example_catalog (replicate 25 ''maroon'') (replicate 25 18) 20 example_source
       = Some (Inr (example_figure, [7]))
   \<and> point_count example_figure = 20
   \<and> point_labels example_figure = take 20 (CAPECids example_catalog)"
proof -
  have a: "(20::int) \<in> {20, 30, 40, 50}" by simp
  from figure_points_and_labels [OF a, of example_catalog "replicate 25 ''maroon''" "replicate 25 18"]
    example_update_figure
  have "point_count example_figure = nat 20
      \<and> point_labels example_figure = take (nat 20) (CAPECids example_catalog)"
    by blast
  then show ?thesis using a example_update_figure by simp
qed

text \<open>
  C3. For a count \<open>N\<close> in \<open>{20, 30, 40, 50}\<close>, in every figure that \<^verbatim>\<open>update_figure\<close>
  returns the \<open>N\<close> x-coordinates are pairwise distinct integers of \<open>0..499\<close>, and so are
  the \<open>N\<close> y-coordinates. The two axes are sampled one after the other from the same
  range: any duplicate-free \<open>xs\<close> and any duplicate-free \<open>ys\<close> of that length (also
  \<open>ys = xs\<close>) are the coordinates of a returned figure, for the source that delivers
  them.
\<close>

theorem axes_sampled_without_replacement:
  assumes "cids \<in> {20, 30, 40, 50}"
  shows "(\<forall>src fig src'. update_figure df colors sizes cids src = Some (Inr (fig, src'))
            \<longrightarrow> length (scatter_x fig) = nat cids \<and> length (scatter_y fig) = nat cids
              \<and> distinct (scatter_x fig) \<and> distinct (scatter_y fig)
              \<and> set (scatter_x fig) \<subseteq> {0..<500} \<and> set (scatter_y fig) \<subseteq> {0..<500})
       \<and> (\<forall>xs ys rest.
              length xs = nat cids \<and> distinct xs \<and> set xs \<subseteq> {0..<500}
            \<and> length ys = nat cids \<and> distinct ys \<and> set ys \<subseteq> {0..<500}
            \<longrightarrow> (\<exists>fig. update_figure df colors sizes cids (xs @ ys @ rest) = Some (Inr (fig, rest))
                    \<and> scatter_x fig = xs \<and> scatter_y fig = ys))"
proof -
  have safe: "length (scatter_x fig) = nat cids \<and> length (scatter_y fig) = nat cids
              \<and> distinct (scatter_x fig) \<and> distinct (scatter_y fig)
              \<and> set (scatter_x fig) \<subseteq> {0..<500} \<and> set (scatter_y fig) \<subseteq> {0..<500}"
    if ret: "update_figure df colors sizes cids src = Some (Inr (fig, src'))" for src fig src'
  proof -
    from update_figure_returned [OF ret] obtain src1 where
      x: "sample 500 cids src = Some (Inr (scatter_x fig, src1))" and
      y: "sample 500 cids src1 = Some (Inr (scatter_y fig, src'))"
      by blast
    show ?thesis
      using sample_dropdown_returned [OF assms x] sample_dropdown_returned [OF assms y]
      by simp
  qed
  have live: "\<exists>fig. update_figure df colors sizes cids (xs @ ys @ rest) = Some (Inr (fig, rest))
                    \<and> scatter_x fig = xs \<and> scatter_y fig = ys"
    if "length xs = nat cids \<and> distinct xs \<and> set xs \<subseteq> {0..<500}
            \<and> length ys = nat cids \<and> distinct ys \<and> set ys \<subseteq> {0..<500}" for xs ys rest
    using that by (intro update_figure_accepts [OF assms]) simp_all
  show ?thesis using safe live by blast
qed

theorem axes_sampled_without_replacement_witness:
  "(20::int) \<in> {20, 30, 40, 50}
   \<and> update_figure example_catalog (replicate 25 ''maroon'') (replicate 25 18) 20 example_source
       = Some (Inr (example_figure, [7]))
   \<and> distinct (scatter_x example_figure) \<and> distinct (scatter_y example_figure)
   \<and> length (scatter_x example_figure) = 20 \<and> length (scatter_y example_figure) = 20
   \<and> set (scatter_x example_figure) \<subseteq> {0..<500} \<and> set (scatter_y example_figure) \<subseteq> {0..<500}
   \<and> length example_ys = nat 20 \<and> distinct example_ys \<and> set example_ys \<subseteq> {0..<500}
   \<and> (\<exists>fig. update_figure example_catalog (replicate 25 ''maroon'') (replicate 25 18) 20
                (example_ys @ example_ys @ [7]) = Some (Inr (fig, [7]))
          \<and> scatter_x fig = example_ys \<and> scatter_y fig = example_ys)"
proof -
  have a: "(20::int) \<in> {20, 30, 40, 50}" by simp
  note inst = axes_sampled_without_replacement
    [OF a, of example_catalog "replicate 25 ''maroon''" "replicate 25 18"]
  from inst example_update_figure
  have safe: "length (scatter_x example_figure) = nat 20
              \<and> length (scatter_y example_figure) = nat 20
              \<and> distinct (scatter_x example_figure) \<and> distinct (scatter_y example_figure)
              \<and> set (scatter_x example_figure) \<subseteq> {0..<500}
              \<and> set (scatter_y example_figure) \<subseteq> {0..<500}"
    by blast
  have ys: "length example_ys = nat 20 \<and> distinct example_ys \<and> set example_ys \<subseteq> {0..<500}"
    by (simp add: example_ys_def)
  with inst have "\<exists>fig. update_figure example_catalog (replicate 25 ''maroon'') (replicate 25 18) 20
                (example_ys @ example_ys @ [7]) = Some (Inr (fig, [7]))
          \<and> scatter_x fig = example_ys \<and> scatter_y fig = example_ys"
    by blast
  then show ?thesis using a safe ys example_update_figure by simp
qed

text \<open>
  C9. \<^verbatim>\<open>on_click\<close> and \<^verbatim>\<open>update_table\<close> answer from the catalog and their arguments
  alone: whatever requests the server has handled between two calls with the same
  arguments (redraws of the figure, which use up random bits, included), the two calls
  return the same response, and the catalog is the one the server started with.
\<close>

theorem resolver_calls_repeat:
  assumes "serve wrap s reqs = Some s'"
  shows "callback wrap s (OnClick clickData)
           = Some (Children (on_click wrap (server_df s) clickData), s)
       \<and> callback wrap s' (OnClick clickData)
           = Some (Children (on_click wrap (server_df s) clickData), s')
       \<and> callback wrap s (UpdateTable value clickData)
           = Some (Children (update_table (server_df s) value clickData), s)
       \<and> callback wrap s' (UpdateTable value clickData)
           = Some (Children (update_table (server_df s) value clickData), s')
       \<and> server_df s' = server_df s"
  using serve_keeps_globals [OF assms] by simp

theorem resolver_calls_repeat_witness:
  "serve (\<lambda>description width. [description]) example_server
     [OnClick (Some 0), UpdateFigure 20, UpdateTable ''weakness'' (Some 0)]
     = Some (example_server\<lparr>server_random := [7]\<rparr>)
   \<and> map_option fst (callback (\<lambda>description width. [description])
         (example_server\<lparr>server_random := [7]\<rparr>) (OnClick (Some 0)))
     = map_option fst (callback (\<lambda>description width. [description])
         example_server (OnClick (Some 0)))
   \<and> map_option fst (callback (\<lambda>description width. [description])
         (example_server\<lparr>server_random := [7]\<rparr>) (UpdateTable ''weakness'' (Some 0)))
     = map_option fst (callback (\<lambda>description width. [description])
         example_server (UpdateTable ''weakness'' (Some 0)))
   \<and> server_random (example_server\<lparr>server_random := [7]\<rparr>) \<noteq> server_random example_server"
proof -
  have "server_random (example_server\<lparr>server_random := [7]\<rparr>) \<noteq> server_random example_server"
    by (simp add: example_server_def example_source_def)
  then show ?thesis
    using resolver_calls_repeat [OF example_serve, of "Some 0" "''weakness''"] example_serve
    by simp
qed

end
